theory Spec2Isabelle
  imports Main "HOL-Library.Sublist"
begin

section \<open>JavaScript string primitives used by the course service\<close>

text \<open>
  \<^verbatim>\<open>s.includes(sep)\<close>: does \<open>sep\<close> occur in \<open>s\<close> as a contiguous substring.
\<close>

fun js_includes :: "string \<Rightarrow> string \<Rightarrow> bool" where
  "js_includes [] sep = (sep = [])"
| "js_includes (c # cs) sep = (prefix sep (c # cs) \<or> js_includes cs sep)"

text \<open>
  \<^verbatim>\<open>s.split(sep)\<close> for a non-empty separator: scan from the left, cut at every
  occurrence of \<open>sep\<close>, resume after it. \<open>cur\<close> is the piece collected so far. The
  source only ever splits on the three non-empty literals \<^verbatim>\<open>', '\<close>, \<^verbatim>\<open>' in '\<close> and
  \<^verbatim>\<open>' at '\<close>.
\<close>

fun split_scan :: "string \<Rightarrow> string \<Rightarrow> string \<Rightarrow> string list" where
  "split_scan sep cur [] = [cur]"
| "split_scan sep cur (c # cs) =
     (if prefix sep (c # cs) then cur # split_scan sep [] (drop (length sep - 1) cs)
      else split_scan sep (cur @ [c]) cs)"

definition js_split :: "string \<Rightarrow> string \<Rightarrow> string list" where
  "js_split s sep = split_scan sep [] s"

text \<open>\<^verbatim>\<open>pieces.join(sep)\<close>.\<close>

fun js_join :: "string \<Rightarrow> string list \<Rightarrow> string" where
  "js_join sep [] = []"
| "js_join sep [x] = x"
| "js_join sep (x # y # ys) = x @ sep @ js_join sep (y # ys)"

text \<open>
  Array destructuring \<^verbatim>\<open>const [a, b] = arr\<close> reads \<^verbatim>\<open>arr[0]\<close> and \<^verbatim>\<open>arr[1]\<close>; an index
  past the end reads \<^verbatim>\<open>undefined\<close>, which is \<open>None\<close> here.
\<close>

fun js_at :: "'a list \<Rightarrow> nat \<Rightarrow> 'a option" where
  "js_at [] i = None"
| "js_at (x # xs) 0 = Some x"
| "js_at (x # xs) (Suc i) = js_at xs i"

text \<open>
  Truthiness of an optional string (\<^verbatim>\<open>!x\<close>, \<^verbatim>\<open>x ? a : b\<close>, \<^verbatim>\<open>x || y\<close>): \<^verbatim>\<open>undefined\<close> and
  the empty string are falsy.
\<close>

fun truthy :: "string option \<Rightarrow> bool" where
  "truthy None = False"
| "truthy (Some s) = (s \<noteq> [])"

definition js_or :: "string option \<Rightarrow> string option \<Rightarrow> string option" where
  "js_or a b = (if truthy a then a else b)"

section \<open>Schedule codec\<close>

text \<open>An element of \<^verbatim>\<open>NewCourse.classTimes\<close>.\<close>

record ClassTime =
  day :: string
  time :: string
  classroom :: "string option"

text \<open>
  What \<^verbatim>\<open>mapCourseFromDB\<close> builds for one fragment of \<^verbatim>\<open>class_time\<close>: every field comes
  out of a destructured array, so each may be \<^verbatim>\<open>undefined\<close>; the object literal without
  \<^verbatim>\<open>classroom\<close> has no such property.
\<close>

record ParsedClassTime =
  p_day :: "string option"
  p_time :: "string option"
  p_classroom :: "string option"

text \<open>
  The template \<^verbatim>\<open>`${ct.day} at ${ct.time}${ct.classroom ? ` in ${ct.classroom}` : ''}`\<close>.
\<close>

definition renderClassTime :: "ClassTime \<Rightarrow> string" where
  "renderClassTime ct =
     day ct @ '' at '' @ time ct @
       (case classroom ct of
          None \<Rightarrow> []
        | Some room \<Rightarrow> if room \<noteq> [] then '' in '' @ room else [])"

text \<open>\<^verbatim>\<open>classTimes.map(ct => ...).join(', ')\<close>, as in createCourse and bulkImportCourses.\<close>

definition formatClassTimes :: "ClassTime list \<Rightarrow> string" where
  "formatClassTimes cts = js_join '', '' (map renderClassTime cts)"

text \<open>The body of the \<^verbatim>\<open>map\<close> callback in \<^verbatim>\<open>mapCourseFromDB\<close>.\<close>

definition parseClassTime :: "string \<Rightarrow> ParsedClassTime" where
  "parseClassTime timeStr =
     (if js_includes timeStr '' in '' then
        (case js_split timeStr '' in '' of
           timeInfo # rest \<Rightarrow>
             (let dt = js_split timeInfo '' at ''
              in \<lparr>p_day = js_at dt 0, p_time = js_at dt 1, p_classroom = js_at rest 0\<rparr>)
         | [] \<Rightarrow> \<lparr>p_day = None, p_time = None, p_classroom = None\<rparr>)
      else
        (let dt = js_split timeStr '' at ''
         in \<lparr>p_day = js_at dt 0, p_time = js_at dt 1, p_classroom = None\<rparr>))"

text \<open>\<^verbatim>\<open>data.class_time.split(', ').map(...)\<close>.\<close>

definition parseClassTimes :: "string \<Rightarrow> ParsedClassTime list" where
  "parseClassTimes class_time = map parseClassTime (js_split class_time '', '')"

text \<open>A well-typed \<^verbatim>\<open>ClassTime\<close> seen as the object the parser would have to rebuild.\<close>

definition asParsed :: "ClassTime \<Rightarrow> ParsedClassTime" where
  "asParsed ct = \<lparr>p_day = Some (day ct), p_time = Some (time ct), p_classroom = classroom ct\<rparr>"


text \<open>
  Conditions under which the codec is invertible. \<open>fields_clean\<close> is the condition of the
  specification: no field contains one of the three delimiters. \<open>boundary_clean\<close> excludes
  the delimiters that only appear once the fields are glued to the literal text of the
  template, and the empty classroom, which the template renders like an absent one.
\<close>

definition no_delims :: "string \<Rightarrow> bool" where
  "no_delims f \<longleftrightarrow>
     \<not> js_includes f '', '' \<and> \<not> js_includes f '' at '' \<and> \<not> js_includes f '' in ''"

definition fields_clean :: "ClassTime \<Rightarrow> bool" where
  "fields_clean ct \<longleftrightarrow>
     no_delims (day ct) \<and> no_delims (time ct) \<and>
     (case classroom ct of None \<Rightarrow> True | Some room \<Rightarrow> no_delims room)"

definition boundary_clean :: "ClassTime \<Rightarrow> bool" where
  "boundary_clean ct \<longleftrightarrow>
     \<not> suffix '','' (day ct) \<and> \<not> suffix '' at'' (day ct) \<and> \<not> suffix '' in'' (day ct) \<and>
     \<not> prefix ''in '' (time ct) \<and>
     (case classroom ct of
        None \<Rightarrow> True
      | Some room \<Rightarrow>
          room \<noteq> [] \<and> time ct \<noteq> ''in'' \<and>
          \<not> suffix '' in'' (time ct) \<and> \<not> suffix '','' (time ct))"

section \<open>Session provider and remote store\<close>

text \<open>
  A store request resolves to the pair \<^verbatim>\<open>{ data, error }\<close>, of which one side is set
  (\<open>pg\<close>), or the \<^verbatim>\<open>await\<close> throws (\<open>Rejected\<close>, with the exception's message).
\<close>

datatype 'a pg = PgData 'a | PgError string

datatype 'a awaited = Resolved 'a | Rejected string

text \<open>
  The fields of \<^verbatim>\<open>user\<close> that the course service reads: \<^verbatim>\<open>user.id\<close>,
  \<^verbatim>\<open>user.user_metadata?.role\<close> and \<^verbatim>\<open>user.user_metadata?.sectionId\<close>.
\<close>

record AuthUser =
  user_id :: string
  user_role :: "string option"
  user_sectionId :: "string option"

text \<open>The candidate of an import (\<^verbatim>\<open>NewCourse\<close>).\<close>

record NewCourse =
  nc_name :: string
  nc_code :: string
  nc_teacher :: string
  nc_classTimes :: "ClassTime list"
  nc_telegramGroup :: "string option"
  nc_blcLink :: "string option"
  nc_blcEnrollKey :: "string option"
  nc_credit :: "int option"
  nc_section :: "string option"
  nc_teacherId :: "string option"

text \<open>The object handed to \<^verbatim>\<open>from('courses').insert\<close>.\<close>

record CourseInsert =
  ci_name :: string
  ci_code :: string
  ci_teacher :: string
  ci_class_time :: string
  ci_telegram_group :: "string option"
  ci_blc_link :: "string option"
  ci_blc_enroll_key :: "string option"
  ci_credit :: "int option"
  ci_section :: "string option"
  ci_teacher_id :: "string option"

text \<open>A row of \<^verbatim>\<open>courses\<close> as the store returns it, and the entity mapped from it.\<close>

record CourseRow =
  db_id :: string
  db_name :: string
  db_code :: string
  db_teacher :: string
  db_class_time :: string
  db_telegram_group :: "string option"
  db_blc_link :: "string option"
  db_blc_enroll_key :: "string option"
  db_credit :: "int option"
  db_section :: "string option"
  db_created_at :: string
  db_created_by :: "string option"

record Course =
  c_id :: string
  c_name :: string
  c_code :: string
  c_teacher :: string
  c_classTimes :: "ParsedClassTime list"
  c_telegramGroup :: "string option"
  c_blcLink :: "string option"
  c_blcEnrollKey :: "string option"
  c_credit :: "int option"
  c_section :: "string option"
  c_createdAt :: string
  c_createdBy :: "string option"

definition mapCourseFromDB :: "CourseRow \<Rightarrow> Course" where
  "mapCourseFromDB data =
     \<lparr>c_id = db_id data, c_name = db_name data, c_code = db_code data,
      c_teacher = db_teacher data, c_classTimes = parseClassTimes (db_class_time data),
      c_telegramGroup = db_telegram_group data, c_blcLink = db_blc_link data,
      c_blcEnrollKey = db_blc_enroll_key data, c_credit = db_credit data,
      c_section = db_section data, c_createdAt = db_created_at data,
      c_createdBy = db_created_by data\<rparr>"

text \<open>
  The fields of \<^verbatim>\<open>Partial<Course>\<close> that \<^verbatim>\<open>updateCourse\<close> reads, and the object it hands
  to \<^verbatim>\<open>from('courses').update\<close>; an absent field is \<open>None\<close>.
\<close>

record CourseUpdate =
  up_name :: "string option"
  up_code :: "string option"
  up_teacher :: "string option"
  up_classTimes :: "ClassTime list option"
  up_telegramGroup :: "string option"
  up_blcLink :: "string option"
  up_blcEnrollKey :: "string option"
  up_credit :: "int option"
  up_section :: "string option"

record CoursePatch =
  cp_name :: "string option"
  cp_code :: "string option"
  cp_teacher :: "string option"
  cp_class_time :: "string option"
  cp_telegram_group :: "string option"
  cp_blc_link :: "string option"
  cp_blc_enroll_key :: "string option"
  cp_credit :: "int option"
  cp_section :: "string option"

text \<open>The object handed to \<^verbatim>\<open>from('teachers').insert\<close>, and the row that comes back.\<close>

record TeacherInsert =
  ti_name :: string
  ti_phone :: string
  ti_department :: "string option"

record TeacherRow =
  t_id :: string
  t_name :: string
  t_phone :: string
  t_department :: "string option"

text \<open>
  The requests the course service issues, and how each one ended. The trace of a run is
  the list of its requests in the order they were awaited.
\<close>

datatype call =
    GetUser
  | SelectUserRole string
  | SelectCourseByCode string
  | CheckTeacherNameExists string
  | InsertTeacher TeacherInsert
  | SelectTeacherIdByName string
  | InsertCourse CourseInsert
  | UpdateCourse string CoursePatch
  | DeleteCourse string

datatype status = Returned | ReturnedError | Threw

fun pg_status :: "'a pg awaited \<Rightarrow> status" where
  "pg_status (Resolved (PgData d)) = Returned"
| "pg_status (Resolved (PgError m)) = ReturnedError"
| "pg_status (Rejected m) = Threw"

fun awaited_status :: "'a awaited \<Rightarrow> status" where
  "awaited_status (Resolved v) = Returned"
| "awaited_status (Rejected m) = Threw"

text \<open>
  The collaborators are parameters: \<open>'w\<close> is whatever state the session provider and the
  store hold, and every request maps it to a reply and a new state.
  \<^item> \<open>auth_getUser\<close>: \<^verbatim>\<open>supabase.auth.getUser()\<close>, destructured to \<^verbatim>\<open>user\<close>;
  \<^item> \<open>users_select_role\<close>: \<^verbatim>\<open>from('users').select('role').eq('id', id).single()\<close>;
  \<^item> \<open>courses_select_by_code\<close>: \<^verbatim>\<open>from('courses').select('id, code').eq('code', c).maybeSingle()\<close>;
  \<^item> \<open>checkTeacherNameExists\<close>: the function imported from the teacher service, whose
    text is not part of the sources at hand;
  \<^item> \<open>teachers_insert\<close>: \<^verbatim>\<open>from('teachers').insert(t).select().single()\<close>;
  \<^item> \<open>teachers_select_id\<close>: \<^verbatim>\<open>from('teachers').select('id').ilike('name', n).maybeSingle()\<close>;
  \<^item> \<open>courses_insert\<close>: \<^verbatim>\<open>from('courses').insert(c).select().single()\<close>;
  \<^item> \<open>courses_update\<close>: \<^verbatim>\<open>from('courses').update(p).eq('id', id).select().single()\<close>;
  \<^item> \<open>courses_delete\<close>: \<^verbatim>\<open>from('courses').delete().eq('id', id)\<close>.
\<close>

record 'w backend =
  auth_getUser :: "'w \<Rightarrow> AuthUser option awaited \<times> 'w"
  users_select_role :: "string \<Rightarrow> 'w \<Rightarrow> string option pg awaited \<times> 'w"
  courses_select_by_code :: "string \<Rightarrow> 'w \<Rightarrow> (string \<times> string) option pg awaited \<times> 'w"
  checkTeacherNameExists :: "string \<Rightarrow> 'w \<Rightarrow> bool awaited \<times> 'w"
  teachers_insert :: "TeacherInsert \<Rightarrow> 'w \<Rightarrow> TeacherRow pg awaited \<times> 'w"
  teachers_select_id :: "string \<Rightarrow> 'w \<Rightarrow> string option pg awaited \<times> 'w"
  courses_insert :: "CourseInsert \<Rightarrow> 'w \<Rightarrow> CourseRow pg awaited \<times> 'w"
  courses_update :: "string \<Rightarrow> CoursePatch \<Rightarrow> 'w \<Rightarrow> CourseRow pg awaited \<times> 'w"
  courses_delete :: "string \<Rightarrow> 'w \<Rightarrow> unit pg awaited \<times> 'w"

record 'w io =
  world :: 'w
  trace :: "(call \<times> status) list"

text \<open>Await one request: run it on the collaborators' state and append it to the trace.\<close>

definition perform ::
  "call \<Rightarrow> ('a \<Rightarrow> status) \<Rightarrow> ('w \<Rightarrow> 'a \<times> 'w) \<Rightarrow> ('w, 'z) io_scheme \<Rightarrow> 'a \<times> ('w, 'z) io_scheme"
where
  "perform c st request s =
     (case request (world s) of
        (r, w') \<Rightarrow> (r, s\<lparr>world := w', trace := trace s @ [(c, st r)]\<rparr>))"

text \<open>\<^verbatim>\<open>user?.user_metadata?.role\<close> and \<^verbatim>\<open>user?.user_metadata?.sectionId\<close>.\<close>

definition role_of :: "AuthUser option \<Rightarrow> string option" where
  "role_of user = (case user of None \<Rightarrow> None | Some u \<Rightarrow> user_role u)"

definition sectionId_of :: "AuthUser option \<Rightarrow> string option" where
  "sectionId_of user = (case user of None \<Rightarrow> None | Some u \<Rightarrow> user_sectionId u)"

text \<open>
  The condition of both permission gates:
  \<^verbatim>\<open>!userRole || (userRole !== 'admin' && userRole !== 'section_admin')\<close>.
\<close>

definition role_denied :: "string option \<Rightarrow> bool" where
  "role_denied userRole \<longleftrightarrow>
     \<not> truthy userRole \<or> (userRole \<noteq> Some ''admin'' \<and> userRole \<noteq> Some ''section_admin'')"

section \<open>Single course operations\<close>

text \<open>
  The object literal that \<^verbatim>\<open>createCourse\<close> inserts; it has no \<^verbatim>\<open>teacher_id\<close> property.
\<close>

definition createPayload :: "NewCourse \<Rightarrow> string \<Rightarrow> CourseInsert" where
  "createPayload course formattedClassTimes =
     \<lparr>ci_name = nc_name course, ci_code = nc_code course,
      ci_teacher = nc_teacher course, ci_class_time = formattedClassTimes,
      ci_telegram_group = nc_telegramGroup course, ci_blc_link = nc_blcLink course,
      ci_blc_enroll_key = nc_blcEnrollKey course, ci_credit = nc_credit course,
      ci_section = nc_section course, ci_teacher_id = None\<rparr>"

text \<open>\<^verbatim>\<open>createCourse\<close>: the promise resolves to the mapped course or rejects.\<close>

definition createCourse ::
  "'w backend \<Rightarrow> NewCourse \<Rightarrow> ('w, 'z) io_scheme \<Rightarrow> Course awaited \<times> ('w, 'z) io_scheme"
where
  "createCourse be course s =
     (case perform GetUser awaited_status (auth_getUser be) s of
        (Rejected m, s1) \<Rightarrow> (Rejected m, s1)
      | (Resolved user, s1) \<Rightarrow>
          (let userRole = role_of user in
           if role_denied userRole then
             (Rejected ''Permission denied: Only admins and section admins can create courses'', s1)
           else if userRole = Some ''section_admin'' \<and> \<not> truthy (nc_section course) then
             (Rejected ''Section admin must specify a section for the course'', s1)
           else
             (let formattedClassTimes = formatClassTimes (nc_classTimes course);
                  payload = createPayload course formattedClassTimes
              in case perform (InsertCourse payload) pg_status (courses_insert be payload) s1 of
                   (Rejected m, s2) \<Rightarrow> (Rejected m, s2)
                 | (Resolved (PgError m), s2) \<Rightarrow> (Rejected (''Failed to create course: '' @ m), s2)
                 | (Resolved (PgData data), s2) \<Rightarrow> (Resolved (mapCourseFromDB data), s2))))"

text \<open>
  \<^verbatim>\<open>updateCourse\<close>: the class times are formatted when the update carries them; no session
  is consulted.
\<close>

definition updatePatch :: "CourseUpdate \<Rightarrow> CoursePatch" where
  "updatePatch updates =
     \<lparr>cp_name = up_name updates, cp_code = up_code updates, cp_teacher = up_teacher updates,
      cp_class_time =
        (case up_classTimes updates of
           Some classTimes \<Rightarrow> Some (formatClassTimes classTimes)
         | None \<Rightarrow> None),
      cp_telegram_group = up_telegramGroup updates, cp_blc_link = up_blcLink updates,
      cp_blc_enroll_key = up_blcEnrollKey updates, cp_credit = up_credit updates,
      cp_section = up_section updates\<rparr>"

definition updateCourse ::
  "'w backend \<Rightarrow> string \<Rightarrow> CourseUpdate \<Rightarrow> ('w, 'z) io_scheme
     \<Rightarrow> Course awaited \<times> ('w, 'z) io_scheme"
where
  "updateCourse be ident updates s =
     (case perform (UpdateCourse ident (updatePatch updates)) pg_status
             (courses_update be ident (updatePatch updates)) s of
        (Rejected m, s1) \<Rightarrow> (Rejected m, s1)
      | (Resolved (PgError m), s1) \<Rightarrow> (Rejected m, s1)
      | (Resolved (PgData data), s1) \<Rightarrow> (Resolved (mapCourseFromDB data), s1))"

text \<open>\<^verbatim>\<open>deleteCourse\<close>: no session is consulted.\<close>

definition deleteCourse ::
  "'w backend \<Rightarrow> string \<Rightarrow> ('w, 'z) io_scheme \<Rightarrow> unit awaited \<times> ('w, 'z) io_scheme"
where
  "deleteCourse be ident s =
     (case perform (DeleteCourse ident) pg_status (courses_delete be ident) s of
        (Rejected m, s1) \<Rightarrow> (Rejected m, s1)
      | (Resolved (PgError m), s1) \<Rightarrow> (Rejected m, s1)
      | (Resolved (PgData u), s1) \<Rightarrow> (Resolved (), s1))"

section \<open>Bulk import\<close>

text \<open>Decimal rendering of \<^verbatim>\<open>i + 1\<close> inside a template literal.\<close>

definition digit_char :: "nat \<Rightarrow> char" where
  "digit_char d = ''0123456789'' ! (d mod 10)"

function show_nat :: "nat \<Rightarrow> string" where
  "show_nat n = (if n < 10 then [digit_char n] else show_nat (n div 10) @ [digit_char n])"
  by pat_completeness auto
termination
  by (relation "measure id") auto

declare show_nat.simps [simp del]

text \<open>A field in double quotes, as in \<^verbatim>\<open>"${course.teacher}"\<close>.\<close>

definition quoted :: "string \<Rightarrow> string" where
  "quoted s = CHR 0x22 # s @ [CHR 0x22]"

text \<open>
  An element of the \<^verbatim>\<open>errors\<close> array. The flags \<^verbatim>\<open>isWarning\<close> and \<^verbatim>\<open>isSuccess\<close> are
  \<open>False\<close> where the object literal leaves them out; \<^verbatim>\<open>details\<close> holds the message of
  the error object where the literal carries one.
\<close>

record ImportOutcome =
  message :: string
  isWarning :: bool
  isSuccess :: bool
  details :: "string option"

text \<open>The variables of a run: the collaborators, \<^verbatim>\<open>errors\<close> and \<^verbatim>\<open>successCount\<close>.\<close>

record 'w import_state = "'w io" +
  errors :: "ImportOutcome list"
  successCount :: nat

definition push :: "ImportOutcome \<Rightarrow> 'w import_state \<Rightarrow> 'w import_state" where
  "push outcome s = s\<lparr>errors := errors s @ [outcome]\<rparr>"

text \<open>The prefix \<^verbatim>\<open>`Course #${i + 1} (${course.code}): `\<close> of the row messages.\<close>

definition rowLabel :: "nat \<Rightarrow> NewCourse \<Rightarrow> string" where
  "rowLabel i course = ''Course #'' @ show_nat (i + 1) @ '' ('' @ nc_code course @ ''): ''"

text \<open>The \<^verbatim>\<open>catch\<close> of the row: one entry without \<^verbatim>\<open>isWarning\<close>.\<close>

definition rowCatch :: "nat \<Rightarrow> NewCourse \<Rightarrow> string \<Rightarrow> 'w import_state \<Rightarrow> 'w import_state" where
  "rowCatch i course m s =
     push \<lparr>message = rowLabel i course @ m, isWarning = False, isSuccess = False,
           details = Some m\<rparr> s"

text \<open>
  The object literals of the import: the teacher created for a name without a match
  (\<^verbatim>\<open>department: course.section || user?.user_metadata?.sectionId || undefined\<close>) and the
  course row (\<^verbatim>\<open>section: course.section || user?.user_metadata?.sectionId\<close>).
\<close>

definition teacherPayload :: "AuthUser option \<Rightarrow> NewCourse \<Rightarrow> TeacherInsert" where
  "teacherPayload user course =
     \<lparr>ti_name = nc_teacher course, ti_phone = ''N/A'',
      ti_department = js_or (js_or (nc_section course) (sectionId_of user)) None\<rparr>"

definition importPayload ::
  "AuthUser option \<Rightarrow> NewCourse \<Rightarrow> string \<Rightarrow> string option \<Rightarrow> CourseInsert"
where
  "importPayload user course formattedClassTimes teacherId =
     \<lparr>ci_name = nc_name course, ci_code = nc_code course,
      ci_teacher = nc_teacher course, ci_class_time = formattedClassTimes,
      ci_telegram_group = nc_telegramGroup course, ci_blc_link = nc_blcLink course,
      ci_blc_enroll_key = nc_blcEnrollKey course, ci_credit = nc_credit course,
      ci_section = js_or (nc_section course) (sectionId_of user),
      ci_teacher_id = teacherId\<rparr>"

text \<open>
  Teacher resolution (the block under \<^verbatim>\<open>let teacherId = course.teacherId\<close>). It yields the
  final \<^verbatim>\<open>teacherId\<close>, or rejects when \<^verbatim>\<open>checkTeacherNameExists\<close> throws: that call is
  outside the two inner \<^verbatim>\<open>try\<close> blocks.
\<close>

definition resolveTeacher ::
  "'w backend \<Rightarrow> AuthUser option \<Rightarrow> nat \<Rightarrow> NewCourse \<Rightarrow> 'w import_state
     \<Rightarrow> string option awaited \<times> 'w import_state"
where
  "resolveTeacher be user i course s =
     (let teacherId = nc_teacherId course in
      if \<not> truthy teacherId \<and> nc_teacher course \<noteq> [] then
        (case perform (CheckTeacherNameExists (nc_teacher course)) awaited_status
                (checkTeacherNameExists be (nc_teacher course)) s of
           (Rejected m, s1) \<Rightarrow> (Rejected m, s1)
         | (Resolved teacherExists, s1) \<Rightarrow>
             if \<not> teacherExists then
               (let payload = teacherPayload user course
                in case perform (InsertTeacher payload) pg_status (teachers_insert be payload) s1 of
                     (Resolved (PgError m), s2) \<Rightarrow>
                       (Resolved teacherId,
                        push \<lparr>message = rowLabel i course @ ''Warning - Could not create teacher ''
                                 @ quoted (nc_teacher course) @ '': '' @ m,
                              isWarning = True, isSuccess = False, details = None\<rparr> s2)
                   | (Resolved (PgData newTeacher), s2) \<Rightarrow>
                       (Resolved (Some (t_id newTeacher)),
                        push \<lparr>message = ''Created teacher '' @ quoted (nc_teacher course)
                                 @ '' for course '' @ quoted (nc_code course),
                              isWarning = True, isSuccess = True, details = None\<rparr> s2)
                   | (Rejected m, s2) \<Rightarrow>
                       (Resolved teacherId,
                        push \<lparr>message = rowLabel i course
                                 @ ''Warning - Failed to create teacher: '' @ m,
                              isWarning = True, isSuccess = False, details = None\<rparr> s2))
             else
               (case perform (SelectTeacherIdByName (nc_teacher course)) pg_status
                       (teachers_select_id be (nc_teacher course)) s1 of
                  (Resolved (PgError m), s2) \<Rightarrow> (Resolved teacherId, s2)
                | (Resolved (PgData (Some existingTeacher)), s2) \<Rightarrow>
                    (Resolved (Some existingTeacher), s2)
                | (Resolved (PgData None), s2) \<Rightarrow> (Resolved teacherId, s2)
                | (Rejected m, s2) \<Rightarrow> (Resolved teacherId, s2)))
      else (Resolved teacherId, s))"

text \<open>One iteration of the \<^verbatim>\<open>for\<close> loop: the inner \<^verbatim>\<open>try\<close> with its \<^verbatim>\<open>catch\<close>.\<close>

definition importRow ::
  "'w backend \<Rightarrow> AuthUser option \<Rightarrow> string option \<Rightarrow> nat \<Rightarrow> NewCourse \<Rightarrow> 'w import_state
     \<Rightarrow> 'w import_state"
where
  "importRow be user userRole i course s =
     (if userRole = Some ''section_admin'' \<and> \<not> truthy (nc_section course) then
        push \<lparr>message = rowLabel i course
                 @ ''Section admin must specify a section for the course'',
              isWarning = True, isSuccess = False, details = None\<rparr> s
      else
        (let formattedClassTimes = formatClassTimes (nc_classTimes course) in
         case perform (SelectCourseByCode (nc_code course)) pg_status
                (courses_select_by_code be (nc_code course)) s of
           (Rejected m, s1) \<Rightarrow> rowCatch i course m s1
         | (Resolved (PgError m), s1) \<Rightarrow>
             rowCatch i course (''Error checking for existing course: '' @ m) s1
         | (Resolved (PgData (Some existingCourse)), s1) \<Rightarrow>
             push \<lparr>message = rowLabel i course @ ''A course with this code already exists'',
                   isWarning = False, isSuccess = False, details = None\<rparr> s1
         | (Resolved (PgData None), s1) \<Rightarrow>
             (case resolveTeacher be user i course s1 of
                (Rejected m, s2) \<Rightarrow> rowCatch i course m s2
              | (Resolved teacherId, s2) \<Rightarrow>
                  (let payload = importPayload user course formattedClassTimes teacherId
                   in case perform (InsertCourse payload) pg_status
                             (courses_insert be payload) s2 of
                        (Rejected m, s3) \<Rightarrow> rowCatch i course m s3
                      | (Resolved (PgError m), s3) \<Rightarrow>
                          push \<lparr>message = rowLabel i course @ m, isWarning = False,
                                isSuccess = False, details = Some m\<rparr> s3
                      | (Resolved (PgData data), s3) \<Rightarrow>
                          s3\<lparr>successCount := successCount s3 + 1\<rparr>))))"

text \<open>\<^verbatim>\<open>for (let i = 0; i < courses.length; i++)\<close>, from index \<open>i\<close> on.\<close>

fun importLoop ::
  "'w backend \<Rightarrow> AuthUser option \<Rightarrow> string option \<Rightarrow> nat \<Rightarrow> NewCourse list
     \<Rightarrow> 'w import_state \<Rightarrow> 'w import_state"
where
  "importLoop be user userRole i [] s = s"
| "importLoop be user userRole i (course # rest) s =
     importLoop be user userRole (Suc i) rest (importRow be user userRole i course s)"

text \<open>The outer \<^verbatim>\<open>catch\<close>: the batch ends with one entry.\<close>

definition bulkCatch :: "string \<Rightarrow> 'w import_state \<Rightarrow> 'w import_state" where
  "bulkCatch m s =
     push \<lparr>message = ''Bulk import failed: '' @ m, isWarning = False, isSuccess = False,
           details = Some m\<rparr> s"

text \<open>
  The part of the outer \<^verbatim>\<open>try\<close> before the loop: fetch the session, look the user up in
  \<^verbatim>\<open>users\<close> (the answer is only logged), check the role. \<open>Inl m\<close> is an exception with
  message \<open>m\<close>, on its way to the outer \<^verbatim>\<open>catch\<close>; \<open>Inr user\<close> lets the loop start.
\<close>

definition importGate ::
  "'w backend \<Rightarrow> 'w import_state \<Rightarrow> (string + AuthUser option) \<times> 'w import_state"
where
  "importGate be s0 =
     (case perform GetUser awaited_status (auth_getUser be) s0 of
        (Rejected m, s1) \<Rightarrow> (Inl m, s1)
      | (Resolved user, s1) \<Rightarrow>
          (case (case user of
                   None \<Rightarrow> (None, s1)
                 | Some u \<Rightarrow>
                     if user_id u \<noteq> [] then
                       (case perform (SelectUserRole (user_id u)) pg_status
                               (users_select_role be (user_id u)) s1 of
                          (Rejected m, s2) \<Rightarrow> (Some m, s2)
                        | (Resolved userData, s2) \<Rightarrow> (None, s2))
                     else (None, s1)) of
             (Some m, s2) \<Rightarrow> (Inl m, s2)
           | (None, s2) \<Rightarrow>
               (let userRole = role_of user in
                if role_denied userRole then
                  (Inl ''Permission denied: Only admins and section admins can import courses'',
                   s2)
                else (Inr user, s2))))"

text \<open>
  \<^verbatim>\<open>bulkImportCourses\<close>, started on the collaborators' state \<open>w\<close>. The value returned to the
  caller is \<open>report\<close> of the final state; the final state also holds the trace.
\<close>

definition bulkImportCourses :: "'w backend \<Rightarrow> NewCourse list \<Rightarrow> 'w \<Rightarrow> 'w import_state" where
  "bulkImportCourses be courses w =
     (case importGate be \<lparr>world = w, trace = [], errors = [], successCount = 0\<rparr> of
        (Inl m, s) \<Rightarrow> bulkCatch m s
      | (Inr user, s) \<Rightarrow> importLoop be user (role_of user) 0 courses s)"

definition report :: "'w import_state \<Rightarrow> nat \<times> ImportOutcome list" where
  "report s = (successCount s, errors s)"

text \<open>
  The sessions under which the loop of \<^verbatim>\<open>bulkImportCourses\<close> starts: \<^verbatim>\<open>getUser\<close> resolves to
  a user whose role passes the gate, and the lookup in \<^verbatim>\<open>users\<close>, issued for a user with an
  id, does not throw (its answer is only logged).
\<close>

fun resolved :: "'a awaited \<Rightarrow> bool" where
  "resolved (Resolved v) = True"
| "resolved (Rejected m) = False"

definition sessionAdmits :: "'w backend \<Rightarrow> 'w \<Rightarrow> AuthUser \<Rightarrow> bool" where
  "sessionAdmits be w u \<longleftrightarrow>
     fst (auth_getUser be w) = Resolved (Some u) \<and> \<not> role_denied (user_role u) \<and>
     (user_id u = [] \<or>
      resolved (fst (users_select_role be (user_id u) (snd (auth_getUser be w)))))"

text \<open>Which trace entries are course inserts that came back with a row.\<close>

fun insertedCourse :: "call \<times> status \<Rightarrow> bool" where
  "insertedCourse (InsertCourse payload, Returned) = True"
| "insertedCourse other = False"

text \<open>
  What the reply of the course insert adds to \<^verbatim>\<open>errors\<close> and to \<^verbatim>\<open>successCount\<close>: a
  returned row adds no entry and is counted; an error object adds one entry in the
  \<^verbatim>\<open>if (error)\<close> branch, an exception the same entry in the \<^verbatim>\<open>catch\<close> of the row, and
  neither is counted.
\<close>

fun insertEntries :: "nat \<Rightarrow> NewCourse \<Rightarrow> 'a pg awaited \<Rightarrow> ImportOutcome list" where
  "insertEntries i course (Resolved (PgData data)) = []"
| "insertEntries i course (Resolved (PgError m)) =
     [\<lparr>message = rowLabel i course @ m, isWarning = False, isSuccess = False, details = Some m\<rparr>]"
| "insertEntries i course (Rejected m) =
     [\<lparr>message = rowLabel i course @ m, isWarning = False, isSuccess = False, details = Some m\<rparr>]"

fun insertGain :: "'a pg awaited \<Rightarrow> nat" where
  "insertGain (Resolved (PgData data)) = 1"
| "insertGain (Resolved (PgError m)) = 0"
| "insertGain (Rejected m) = 0"

section \<open>An in-memory store for concrete runs\<close>

text \<open>
  The theorems below hold for every behaviour of the collaborators. To run them on
  concrete inputs, this section gives one behaviour: a session and two tables held in
  memory, with a switch per request that makes it answer with an error object or throw.
  Teacher names are matched exactly here.
\<close>

datatype fault = Healthy | Fails string | Throws string

record mem =
  m_user :: "AuthUser option"
  m_courses :: "CourseRow list"
  m_teachers :: "TeacherRow list"
  f_course_lookup :: fault
  f_teacher_exists :: fault
  f_teacher_insert :: fault
  f_teacher_lookup :: fault
  f_course_insert :: fault

fun answer :: "fault \<Rightarrow> 'a \<Rightarrow> 'a pg awaited" where
  "answer Healthy v = Resolved (PgData v)"
| "answer (Fails m) v = Resolved (PgError m)"
| "answer (Throws m) v = Rejected m"

definition newTeacherRow :: "mem \<Rightarrow> TeacherInsert \<Rightarrow> TeacherRow" where
  "newTeacherRow w t =
     \<lparr>t_id = ''t'' @ show_nat (length (m_teachers w) + 1), t_name = ti_name t,
      t_phone = ti_phone t, t_department = ti_department t\<rparr>"

definition newCourseRow :: "mem \<Rightarrow> CourseInsert \<Rightarrow> CourseRow" where
  "newCourseRow w c =
     \<lparr>db_id = ''c'' @ show_nat (length (m_courses w) + 1), db_name = ci_name c,
      db_code = ci_code c, db_teacher = ci_teacher c, db_class_time = ci_class_time c,
      db_telegram_group = ci_telegram_group c, db_blc_link = ci_blc_link c,
      db_blc_enroll_key = ci_blc_enroll_key c, db_credit = ci_credit c,
      db_section = ci_section c, db_created_at = ''now'',
      db_created_by = map_option user_id (m_user w)\<rparr>"

definition patchRow :: "CoursePatch \<Rightarrow> CourseRow \<Rightarrow> CourseRow" where
  "patchRow p r =
     r\<lparr>db_name := (case cp_name p of Some v \<Rightarrow> v | None \<Rightarrow> db_name r),
       db_code := (case cp_code p of Some v \<Rightarrow> v | None \<Rightarrow> db_code r),
       db_teacher := (case cp_teacher p of Some v \<Rightarrow> v | None \<Rightarrow> db_teacher r),
       db_class_time := (case cp_class_time p of Some v \<Rightarrow> v | None \<Rightarrow> db_class_time r),
       db_telegram_group := js_or (cp_telegram_group p) (db_telegram_group r),
       db_blc_link := js_or (cp_blc_link p) (db_blc_link r),
       db_blc_enroll_key := js_or (cp_blc_enroll_key p) (db_blc_enroll_key r),
       db_credit := (case cp_credit p of Some v \<Rightarrow> Some v | None \<Rightarrow> db_credit r),
       db_section := js_or (cp_section p) (db_section r)\<rparr>"

definition mem_backend :: "mem backend" where
  "mem_backend =
     \<lparr>auth_getUser = (\<lambda>w. (Resolved (m_user w), w)),
      users_select_role = (\<lambda>uid w. (Resolved (PgData (role_of (m_user w))), w)),
      courses_select_by_code = (\<lambda>code w.
        (answer (f_course_lookup w)
           (map_option (\<lambda>r. (db_id r, db_code r)) (find (\<lambda>r. db_code r = code) (m_courses w))),
         w)),
      checkTeacherNameExists = (\<lambda>n w.
        (case f_teacher_exists w of
           Throws m \<Rightarrow> Rejected m
         | _ \<Rightarrow> Resolved (n \<in> set (map t_name (m_teachers w))),
         w)),
      teachers_insert = (\<lambda>t w.
        (answer (f_teacher_insert w) (newTeacherRow w t),
         if f_teacher_insert w = Healthy
         then w\<lparr>m_teachers := m_teachers w @ [newTeacherRow w t]\<rparr> else w)),
      teachers_select_id = (\<lambda>n w.
        (answer (f_teacher_lookup w)
           (map_option t_id (find (\<lambda>t. t_name t = n) (m_teachers w))),
         w)),
      courses_insert = (\<lambda>c w.
        (answer (f_course_insert w) (newCourseRow w c),
         if f_course_insert w = Healthy
         then w\<lparr>m_courses := m_courses w @ [newCourseRow w c]\<rparr> else w)),
      courses_update = (\<lambda>ident p w.
        (case find (\<lambda>r. db_id r = ident) (m_courses w) of
           None \<Rightarrow> (Resolved (PgError ''no rows''), w)
         | Some r \<Rightarrow>
             (Resolved (PgData (patchRow p r)),
              w\<lparr>m_courses :=
                   map (\<lambda>x. if db_id x = ident then patchRow p x else x) (m_courses w)\<rparr>))),
      courses_delete = (\<lambda>ident w.
        (Resolved (PgData ()), w\<lparr>m_courses := filter (\<lambda>r. db_id r \<noteq> ident) (m_courses w)\<rparr>))\<rparr>"

text \<open>An empty store with the given session and no fault.\<close>

definition mem_empty :: "AuthUser option \<Rightarrow> mem" where
  "mem_empty u =
     \<lparr>m_user = u, m_courses = [], m_teachers = [], f_course_lookup = Healthy,
      f_teacher_exists = Healthy, f_teacher_insert = Healthy, f_teacher_lookup = Healthy,
      f_course_insert = Healthy\<rparr>"

definition session :: "string option \<Rightarrow> string option \<Rightarrow> AuthUser option" where
  "session r sec = Some \<lparr>user_id = ''u1'', user_role = r, user_sectionId = sec\<rparr>"

text \<open>A candidate with one class time, a teacher name and no teacher id.\<close>

definition candidate :: "string \<Rightarrow> string \<Rightarrow> string option \<Rightarrow> NewCourse" where
  "candidate code teacher sec =
     \<lparr>nc_name = ''Course '' @ code, nc_code = code, nc_teacher = teacher,
      nc_classTimes = [\<lparr>day = ''Mon'', time = ''10:00'', classroom = Some ''R1''\<rparr>],
      nc_telegramGroup = None, nc_blcLink = None, nc_blcEnrollKey = None,
      nc_credit = Some 3, nc_section = sec, nc_teacherId = None\<rparr>"

text \<open>The variables of a run before its first request, on the store \<open>w\<close>.\<close>

definition start :: "mem \<Rightarrow> mem import_state" where
  "start w = \<lparr>world = w, trace = [], errors = [], successCount = 0\<rparr>"

text \<open>The state of a single-course operation before its first request.\<close>

definition io0 :: "mem \<Rightarrow> mem io" where
  "io0 w = \<lparr>world = w, trace = []\<rparr>"

section \<open>Properties of the string primitives\<close>

lemma js_includes_sublist: "js_includes s sep = sublist sep s"
  by (induction s) (auto simp: sublist_Cons_right)

lemma split_scan_nonempty: "split_scan sep cur s \<noteq> []"
  by (induction sep cur s rule: split_scan.induct) auto

lemma split_scan_no_sep: "\<not> sublist sep s \<Longrightarrow> split_scan sep cur s = [cur @ s]"
  by (induction s arbitrary: cur) (auto simp: sublist_Cons_right)

lemma prefix_append_short:
  "prefix xs (ys @ zs) \<Longrightarrow> length xs \<le> length ys \<Longrightarrow> prefix xs ys"
  by (auto simp: prefix_append)

lemma split_scan_first:
  assumes "sep \<noteq> []" and "\<not> sublist sep (a @ butlast sep)"
  shows "split_scan sep cur (a @ sep @ b) = (cur @ a) # split_scan sep [] b"
  using assms
proof (induction a arbitrary: cur)
  case Nil
  then obtain x xs where sep: "sep = x # xs" by (cases sep) auto
  show ?case by (simp add: sep)
next
  case (Cons c a)
  from Cons.prems have np: "\<not> prefix sep (c # a @ butlast sep)"
    and ns: "\<not> sublist sep (a @ butlast sep)"
    by (auto simp: sublist_Cons_right)
  have "\<not> prefix sep (c # a @ sep @ b)"
  proof
    assume p: "prefix sep (c # a @ sep @ b)"
    have "c # a @ sep @ b = (c # a @ butlast sep) @ (last sep # b)"
      using Cons.prems(1) by simp
    with p have "prefix sep ((c # a @ butlast sep) @ (last sep # b))" by simp
    moreover have "length sep \<le> length (c # a @ butlast sep)" by simp
    ultimately have "prefix sep (c # a @ butlast sep)" by (rule prefix_append_short)
    with np show False by contradiction
  qed
  then show ?case using Cons.IH[OF Cons.prems(1) ns] by simp
qed

lemma split_join:
  assumes "sep \<noteq> []" "fs \<noteq> []" "\<forall>f \<in> set fs. \<not> sublist sep (f @ butlast sep)"
  shows "js_split (js_join sep fs) sep = fs"
  using assms
proof (induction sep fs rule: js_join.induct)
  case (1 sep)
  then show ?case by simp
next
  case (2 sep x)
  then have "\<not> sublist sep x" by (auto simp: sublist_append)
  then show ?case by (simp add: js_split_def split_scan_no_sep)
next
  case (3 sep x y ys)
  then show ?case by (simp add: js_split_def split_scan_first)
qed

lemma split_scan_head_prefix:
  "split_scan sep cur s = x # rest \<Longrightarrow> \<exists>p. prefix p s \<and> x = cur @ p"
proof (induction sep cur s rule: split_scan.induct)
  case (1 sep cur)
  then show ?case by simp
next
  case (2 sep cur c cs)
  show ?case
  proof (cases "prefix sep (c # cs)")
    case True
    with 2 have "x = cur @ []" by simp
    then show ?thesis by (intro exI[of _ "[]"]) simp
  next
    case False
    with 2 obtain p where "prefix p cs" "x = (cur @ [c]) @ p" by auto
    then have "prefix (c # p) (c # cs)" "x = cur @ (c # p)" by simp_all
    then show ?thesis by blast
  qed
qed

lemma split_scan_occurs:
  "sublist sep s \<Longrightarrow> sep \<noteq> [] \<Longrightarrow> \<exists>x y rest. split_scan sep cur s = x # y # rest"
proof (induction s arbitrary: cur)
  case Nil
  then show ?case by simp
next
  case (Cons c cs)
  show ?case
  proof (cases "prefix sep (c # cs)")
    case True
    obtain y rest where "split_scan sep [] (drop (length sep - 1) cs) = y # rest"
      using split_scan_nonempty by (meson list.exhaust)
    with True show ?thesis by simp
  next
    case False
    with Cons.prems have "sublist sep cs" by (simp add: sublist_Cons_right)
    from Cons.IH[OF this Cons.prems(2)] False show ?thesis by simp
  qed
qed

lemma list2_split: "[a, b] = xs @ ys \<longleftrightarrow>
    (xs = [] \<and> ys = [a, b]) \<or> (xs = [a] \<and> ys = [b]) \<or> (xs = [a, b] \<and> ys = [])"
  by (auto simp: Cons_eq_append_conv)

lemma list4_split: "[a, b, c, d] = xs @ ys \<longleftrightarrow>
    (xs = [] \<and> ys = [a, b, c, d]) \<or> (xs = [a] \<and> ys = [b, c, d]) \<or>
    (xs = [a, b] \<and> ys = [c, d]) \<or> (xs = [a, b, c] \<and> ys = [d]) \<or>
    (xs = [a, b, c, d] \<and> ys = [])"
  by (auto simp: Cons_eq_append_conv)

lemma sublist2_append:
  "sublist [a, b] (ys @ zs) \<longleftrightarrow>
     sublist [a, b] ys \<or> sublist [a, b] zs \<or> (suffix [a] ys \<and> prefix [b] zs)"
  unfolding sublist_append[of "[a, b]"] list2_split
  by (auto intro: suffix_imp_sublist prefix_imp_sublist)

lemma sublist4_append:
  "sublist [a, b, c, d] (ys @ zs) \<longleftrightarrow>
     sublist [a, b, c, d] ys \<or> sublist [a, b, c, d] zs \<or>
     (suffix [a] ys \<and> prefix [b, c, d] zs) \<or>
     (suffix [a, b] ys \<and> prefix [c, d] zs) \<or>
     (suffix [a, b, c] ys \<and> prefix [d] zs)"
  unfolding sublist_append[of "[a, b, c, d]"] list4_split
  by (auto intro: suffix_imp_sublist prefix_imp_sublist)


lemmas occ_simps = sublist2_append sublist4_append sublist_Cons_right

lemma at_split:
  assumes "\<not> sublist '' at '' d" "\<not> suffix '' at'' d" "\<not> sublist '' at '' t"
  shows "js_split (d @ '' at '' @ t) '' at '' = [d, t]"
proof -
  have "\<not> sublist '' at '' (d @ butlast '' at '')"
    using assms by (simp add: occ_simps)
  then have "split_scan '' at '' [] (d @ '' at '' @ t) = ([] @ d) # split_scan '' at '' [] t"
    by (intro split_scan_first) simp_all
  then show ?thesis using assms(3) by (simp add: js_split_def split_scan_no_sep)
qed

lemma in_free:
  assumes "\<not> sublist '' in '' d" "\<not> suffix '' in'' d" "\<not> sublist '' in '' t" "\<not> prefix ''in '' t"
  shows "\<not> sublist '' in '' (d @ '' at '' @ t)"
  using assms by (simp add: occ_simps)

lemma in_split:
  assumes "\<not> sublist '' in '' x" "\<not> suffix '' in'' x" "\<not> sublist '' in '' r"
  shows "js_split (x @ '' in '' @ r) '' in '' = [x, r]"
proof -
  have "\<not> sublist '' in '' (x @ butlast '' in '')"
    using assms by (simp add: occ_simps)
  then have "split_scan '' in '' [] (x @ '' in '' @ r) = ([] @ x) # split_scan '' in '' [] r"
    by (intro split_scan_first) simp_all
  then show ?thesis using assms(3) by (simp add: js_split_def split_scan_no_sep)
qed

lemma in_suffix_free:
  assumes "\<not> suffix '' in'' t" "t \<noteq> ''in''"
  shows "\<not> suffix '' in'' (d @ '' at '' @ t)"
proof (cases "rev t")
  case Nil
  then show ?thesis by (simp add: suffix_to_prefix)
next
  case (Cons a u)
  note c1 = this
  show ?thesis
  proof (cases u)
    case Nil
    with c1 show ?thesis by (simp add: suffix_to_prefix)
  next
    case (Cons b v)
    note c2 = this
    show ?thesis
    proof (cases v)
      case Nil
      with c1 c2 have "t = [b, a]" by (metis rev.simps rev_rev_ident append_Nil append_Cons)
      with assms(2) show ?thesis by (auto simp: suffix_to_prefix)
    next
      case (Cons c w)
      with c1 c2 assms(1) show ?thesis by (simp add: suffix_to_prefix)
    qed
  qed
qed

lemmas clean_defs = fields_clean_def boundary_clean_def no_delims_def js_includes_sublist

lemma parse_render:
  assumes "fields_clean ct" "boundary_clean ct"
  shows "parseClassTime (renderClassTime ct) = asParsed ct"
proof -
  let ?x = "day ct @ '' at '' @ time ct"
  have at: "js_split ?x '' at '' = [day ct, time ct]"
    using assms by (intro at_split) (simp_all add: clean_defs)
  have x1: "\<not> sublist '' in '' ?x"
    using assms by (intro in_free) (simp_all add: clean_defs)
  show ?thesis
  proof (cases "classroom ct")
    case None
    with at x1 show ?thesis
      by (simp add: parseClassTime_def renderClassTime_def asParsed_def js_includes_sublist)
  next
    case (Some r)
    with assms have r: "r \<noteq> []" "\<not> sublist '' in '' r"
      and t: "\<not> suffix '' in'' (time ct)" "time ct \<noteq> ''in''"
      by (simp_all add: clean_defs)
    have x2: "\<not> suffix '' in'' ?x"
      using t by (rule in_suffix_free)
    have "js_split (?x @ '' in '' @ r) '' in '' = [?x, r]"
      using x1 x2 r(2) by (rule in_split)
    moreover have "sublist '' in '' (?x @ '' in '' @ r)" by (rule sublist_appendI)
    ultimately show ?thesis using Some r at
      by (simp add: parseClassTime_def renderClassTime_def asParsed_def js_includes_sublist)
  qed
qed

lemma render_comma_free:
  assumes "fields_clean ct" "boundary_clean ct"
  shows "\<not> sublist '', '' (renderClassTime ct @ '','')"
  using assms
  by (cases "classroom ct") (auto simp: renderClassTime_def clean_defs occ_simps)

text \<open>
  C2 (as amended). For every non-empty sequence of class times in which no field contains
  one of the delimiters \<^verbatim>\<open>', '\<close>, \<^verbatim>\<open>' at '\<close>, \<^verbatim>\<open>' in '\<close>, no day ends with \<^verbatim>\<open>','\<close>,
  \<^verbatim>\<open>' at'\<close> or \<^verbatim>\<open>' in'\<close>, no time starts with \<^verbatim>\<open>'in '\<close>, and every classroom that is
  present is non-empty and follows a time that is not \<^verbatim>\<open>'in'\<close> and ends neither with
  \<^verbatim>\<open>' in'\<close> nor with \<^verbatim>\<open>','\<close>: parsing the formatted string gives back the sequence.
\<close>

theorem codec_roundtrip:
  assumes "cts \<noteq> []" "\<forall>ct \<in> set cts. fields_clean ct \<and> boundary_clean ct"
  shows "parseClassTimes (formatClassTimes cts) = map asParsed cts"
proof -
  have "js_split (js_join '', '' (map renderClassTime cts)) '', '' = map renderClassTime cts"
    using assms by (intro split_join) (simp_all add: render_comma_free)
  then show ?thesis using assms(2)
    by (simp add: parseClassTimes_def formatClassTimes_def parse_render)
qed


theorem codec_roundtrip_witness:
  "fields_clean \<lparr>day = ''Mon'', time = ''10:00'', classroom = Some ''R1''\<rparr> \<and>
   boundary_clean \<lparr>day = ''Mon'', time = ''10:00'', classroom = Some ''R1''\<rparr> \<and>
   fields_clean \<lparr>day = ''Tue'', time = ''11:30 AM'', classroom = None\<rparr> \<and>
   boundary_clean \<lparr>day = ''Tue'', time = ''11:30 AM'', classroom = None\<rparr> \<and>
   parseClassTimes (formatClassTimes
      [\<lparr>day = ''Mon'', time = ''10:00'', classroom = Some ''R1''\<rparr>,
       \<lparr>day = ''Tue'', time = ''11:30 AM'', classroom = None\<rparr>]) =
     [\<lparr>p_day = Some ''Mon'', p_time = Some ''10:00'', p_classroom = Some ''R1''\<rparr>,
      \<lparr>p_day = Some ''Tue'', p_time = Some ''11:30 AM'', p_classroom = None\<rparr>]"
proof -
  let ?cts = "[\<lparr>day = ''Mon'', time = ''10:00'', classroom = Some ''R1''\<rparr>,
               \<lparr>day = ''Tue'', time = ''11:30 AM'', classroom = None\<rparr>]"
  have ne: "?cts \<noteq> []" by simp
  have clean: "\<forall>ct \<in> set ?cts. fields_clean ct \<and> boundary_clean ct"
    by (simp add: fields_clean_def boundary_clean_def no_delims_def suffix_to_prefix)
  from codec_roundtrip[OF ne clean] clean show ?thesis
    by (simp add: asParsed_def)
qed

text \<open>
  C2 fails as stated. The empty sequence is formatted as the empty string, which parses to
  one entry with an empty day and no time. A day ending in \<^verbatim>\<open>' in'\<close> contains no delimiter,
  yet the rendered fragment does. An empty classroom is rendered like an absent one.
\<close>

theorem codec_roundtrip_counterexample:
  "parseClassTimes (formatClassTimes []) =
     [\<lparr>p_day = Some [], p_time = None, p_classroom = None\<rparr>] \<and>
   fields_clean \<lparr>day = ''Check in'', time = ''9:00'', classroom = None\<rparr> \<and>
   parseClassTimes (formatClassTimes [\<lparr>day = ''Check in'', time = ''9:00'', classroom = None\<rparr>]) =
     [\<lparr>p_day = Some ''Check'', p_time = None, p_classroom = Some ''at 9:00''\<rparr>] \<and>
   fields_clean \<lparr>day = ''Mon'', time = ''9:00'', classroom = Some []\<rparr> \<and>
   parseClassTimes (formatClassTimes [\<lparr>day = ''Mon'', time = ''9:00'', classroom = Some []\<rparr>]) =
     [\<lparr>p_day = Some ''Mon'', p_time = Some ''9:00'', p_classroom = None\<rparr>]"
  by (simp add: parseClassTimes_def formatClassTimes_def renderClassTime_def
      parseClassTime_def js_split_def fields_clean_def no_delims_def)

lemma parse_fragment_no_at:
  assumes "\<not> js_includes frag '' at ''"
  shows "p_time (parseClassTime frag) = None \<and>
         p_day (parseClassTime frag) = js_at (js_split frag '' in '') 0 \<and>
         (\<not> js_includes frag '' in '' \<longrightarrow>
            p_day (parseClassTime frag) = Some frag \<and> p_classroom (parseClassTime frag) = None)"
proof (cases "js_includes frag '' in ''")
  case False
  with assms show ?thesis
    by (simp add: parseClassTime_def js_includes_sublist js_split_def split_scan_no_sep)
next
  case True
  then obtain x y rest where sp: "split_scan '' in '' [] frag = x # y # rest"
    using split_scan_occurs[of "'' in ''" frag "[]"] by (auto simp: js_includes_sublist)
  then obtain p where "prefix p frag" "x = p" using split_scan_head_prefix[OF sp] by auto
  then have "sublist x frag" by (simp add: prefix_imp_sublist)
  with assms have "\<not> sublist '' at '' x"
    using sublist_order.order_trans by (auto simp: js_includes_sublist)
  then have "split_scan '' at '' [] x = [x]" by (simp add: split_scan_no_sep)
  with True sp show ?thesis
    by (simp add: parseClassTime_def js_split_def)
qed

text \<open>
  C8 (as amended). Parsing is defined on every string and yields at least one entry, one
  per fragment between \<^verbatim>\<open>', '\<close>. A fragment without \<^verbatim>\<open>' at '\<close> yields an entry whose time is
  undefined and whose day is the first piece of the fragment split on \<^verbatim>\<open>' in '\<close>: the whole
  fragment when it has no \<^verbatim>\<open>' in '\<close> either, and then there is no classroom.
\<close>

theorem parse_without_at:
  "parseClassTimes s \<noteq> [] \<and>
   length (parseClassTimes s) = length (js_split s '', '') \<and>
   (\<not> js_includes frag '' at '' \<longrightarrow>
      p_time (parseClassTime frag) = None \<and>
      p_day (parseClassTime frag) = js_at (js_split frag '' in '') 0 \<and>
      (\<not> js_includes frag '' in '' \<longrightarrow>
         p_day (parseClassTime frag) = Some frag \<and> p_classroom (parseClassTime frag) = None))"
proof -
  have "parseClassTimes s \<noteq> []"
    by (simp add: parseClassTimes_def js_split_def split_scan_nonempty)
  moreover have "length (parseClassTimes s) = length (js_split s '', '')"
    by (simp add: parseClassTimes_def)
  ultimately show ?thesis using parse_fragment_no_at[of frag] by blast
qed

theorem parse_without_at_witness:
  "\<not> js_includes ''Monday'' '' at '' \<and> \<not> js_includes ''Monday'' '' in '' \<and>
   parseClassTime ''Monday'' = \<lparr>p_day = Some ''Monday'', p_time = None, p_classroom = None\<rparr> \<and>
   \<not> js_includes ''Mon in R1'' '' at '' \<and>
   p_time (parseClassTime ''Mon in R1'') = None \<and>
   p_day (parseClassTime ''Mon in R1'') = Some ''Mon''"
proof -
  have a: "\<not> js_includes ''Monday'' '' at ''" and b: "\<not> js_includes ''Monday'' '' in ''"
    and c: "\<not> js_includes ''Mon in R1'' '' at ''"
    by simp_all
  have d: "js_at (js_split ''Mon in R1'' '' in '') 0 = Some ''Mon''"
    by (simp add: js_split_def)
  have e: "p_time (parseClassTime ''Monday'') = None \<and>
           p_day (parseClassTime ''Monday'') = Some ''Monday'' \<and>
           p_classroom (parseClassTime ''Monday'') = None"
    using parse_without_at[of "[]" "''Monday''"] a b by blast
  have f: "p_time (parseClassTime ''Mon in R1'') = None \<and>
           p_day (parseClassTime ''Mon in R1'') = js_at (js_split ''Mon in R1'' '' in '') 0"
    using parse_without_at[of "[]" "''Mon in R1''"] c by blast
  have "parseClassTime ''Monday'' = \<lparr>p_day = Some ''Monday'', p_time = None, p_classroom = None\<rparr>"
    using e by (cases "parseClassTime ''Monday''") simp
  with a b c d f show ?thesis by simp
qed

text \<open>
  C8 fails as stated: the fragment \<^verbatim>\<open>'Mon in R1'\<close> has no \<^verbatim>\<open>' at '\<close>, and its day is
  \<^verbatim>\<open>'Mon'\<close>, not the whole fragment.
\<close>

theorem parse_without_at_counterexample:
  "\<not> js_includes ''Mon in R1'' '' at '' \<and>
   parseClassTimes ''Mon in R1'' =
     [\<lparr>p_day = Some ''Mon'', p_time = None, p_classroom = Some ''R1''\<rparr>] \<and>
   p_day (parseClassTime ''Mon in R1'') \<noteq> Some ''Mon in R1''"
  by (simp add: parseClassTimes_def parseClassTime_def js_split_def)

section \<open>Properties of the bulk import\<close>

lemma resolveTeacher_effect:
  assumes "resolveTeacher be user i course s = (r, s')"
  shows "\<exists>ext new. trace s' = trace s @ ext \<and> filter insertedCourse ext = [] \<and>
           errors s' = errors s @ new \<and> length new \<le> 1 \<and> successCount s' = successCount s"
  using assms
  by (auto simp: resolveTeacher_def perform_def push_def Let_def
      split: if_splits prod.splits awaited.splits pg.splits option.splits)

lemma importRow_trace:
  "\<exists>ext. trace (importRow be user userRole i course s) = trace s @ ext \<and>
         successCount (importRow be user userRole i course s) =
           successCount s + length (filter insertedCourse ext) \<and>
         length (filter insertedCourse ext) \<le> 1"
  by (auto simp: importRow_def perform_def push_def rowCatch_def Let_def
      dest!: resolveTeacher_effect
      split: if_splits prod.splits awaited.splits pg.splits option.splits)

lemma importRow_errors:
  "\<exists>new. errors (importRow be user userRole i course s) = errors s @ new \<and> length new \<le> 2"
  by (auto simp: importRow_def perform_def push_def rowCatch_def Let_def
      dest!: resolveTeacher_effect
      split: if_splits prod.splits awaited.splits pg.splits option.splits)

lemma importRow_count:
  assumes "successCount s = length (filter insertedCourse (trace s))"
  shows "successCount (importRow be user userRole i course s) =
           length (filter insertedCourse (trace (importRow be user userRole i course s)))"
  using assms importRow_trace[of be user userRole i course s] by auto

lemma importRow_step:
  "successCount s \<le> successCount (importRow be user userRole i course s) \<and>
   successCount (importRow be user userRole i course s) \<le> successCount s + 1"
  using importRow_trace[of be user userRole i course s] by auto

lemma importLoop_append:
  "importLoop be user userRole i (xs @ ys) s =
     importLoop be user userRole (i + length xs) ys (importLoop be user userRole i xs s)"
  by (induction xs arbitrary: i s) simp_all

lemma importLoop_errors_prefix:
  "prefix (errors s) (errors (importLoop be user userRole i cs s))"
proof (induction cs arbitrary: i s)
  case Nil
  show ?case by simp
next
  case (Cons c cs)
  obtain new where "errors (importRow be user userRole i c s) = errors s @ new"
    using importRow_errors by blast
  then have "prefix (errors s) (errors (importRow be user userRole i c s))" by simp
  also have "prefix \<dots> (errors (importLoop be user userRole (Suc i) cs (importRow be user userRole i c s)))"
    by (rule Cons.IH)
  finally show ?case by simp
qed

lemma importLoop_count:
  assumes "successCount s = length (filter insertedCourse (trace s))"
  shows "successCount (importLoop be user userRole i cs s) =
           length (filter insertedCourse (trace (importLoop be user userRole i cs s)))"
  using assms
  by (induction cs arbitrary: i s) (simp_all add: importRow_count)

lemma importLoop_bound:
  "successCount s \<le> successCount (importLoop be user userRole i cs s) \<and>
   successCount (importLoop be user userRole i cs s) \<le> successCount s + length cs"
proof (induction cs arbitrary: i s)
  case Nil
  show ?case by simp
next
  case (Cons c cs)
  from importRow_step[of s be user userRole i c]
    Cons.IH[where i = "Suc i" and s = "importRow be user userRole i c s"]
  show ?case by simp
qed


lemma importGate_state:
  assumes "importGate be s0 = (r, s)"
  shows "errors s = errors s0 \<and> successCount s = successCount s0 \<and>
         filter insertedCourse (trace s) = filter insertedCourse (trace s0)"
  using assms
  by (auto simp: importGate_def perform_def Let_def
      split: prod.splits awaited.splits option.splits if_splits)

lemma bulk_count:
  "successCount (bulkImportCourses be courses w) =
     length (filter insertedCourse (trace (bulkImportCourses be courses w))) \<and>
   successCount (bulkImportCourses be courses w) \<le> length courses"
proof -
  let ?s0 = "\<lparr>world = w, trace = [], errors = [], successCount = 0\<rparr>"
  obtain r s where g: "importGate be ?s0 = (r, s)" by (cases "importGate be ?s0")
  from importGate_state[OF g]
  have st: "successCount s = 0" "filter insertedCourse (trace s) = []" by simp_all
  show ?thesis
  proof (cases r)
    case (Inl m)
    with g st show ?thesis
      by (simp add: bulkImportCourses_def bulkCatch_def push_def)
  next
    case (Inr user)
    have inv: "successCount s = length (filter insertedCourse (trace s))" using st by simp
    from importLoop_count[OF inv, of be user "role_of user" 0 courses]
      importLoop_bound[of s be user "role_of user" 0 courses] st g Inr
    show ?thesis by (simp add: bulkImportCourses_def)
  qed
qed

text \<open>
  C1. When the session's role is absent or is neither \<^verbatim>\<open>admin\<close> nor \<^verbatim>\<open>section_admin\<close>, the
  import ends before the loop: the success count is 0, the report holds exactly one entry,
  which is not a warning, and the only requests issued are the session fetch and, for a
  user with an id, the lookup in \<^verbatim>\<open>users\<close>: no duplicate check, no teacher request and no
  insert, whatever the candidates are.
\<close>

theorem bulk_abort:
  assumes "fst (auth_getUser be w) = Resolved user" and "role_denied (role_of user)"
  shows "successCount (bulkImportCourses be courses w) = 0 \<and>
         (\<exists>m. errors (bulkImportCourses be courses w) =
            [\<lparr>message = ''Bulk import failed: '' @ m, isWarning = False, isSuccess = False,
              details = Some m\<rparr>]) \<and>
         map fst (trace (bulkImportCourses be courses w)) =
           GetUser # (case user of
                        None \<Rightarrow> []
                      | Some u \<Rightarrow> if user_id u \<noteq> [] then [SelectUserRole (user_id u)] else [])"
proof -
  obtain w1 where g: "auth_getUser be w = (Resolved user, w1)"
    using assms(1) by (cases "auth_getUser be w") simp
  show ?thesis
  proof (cases user)
    case None
    with g assms(2) show ?thesis
      by (simp add: bulkImportCourses_def importGate_def perform_def bulkCatch_def push_def)
  next
    case (Some u)
    show ?thesis
    proof (cases "user_id u = []")
      case True
      with g assms(2) Some show ?thesis
        by (simp add: bulkImportCourses_def importGate_def perform_def bulkCatch_def push_def)
    next
      case False
      obtain r w2 where q: "users_select_role be (user_id u) w1 = (r, w2)"
        by (cases "users_select_role be (user_id u) w1")
      with g assms(2) Some False show ?thesis
        by (cases r)
          (simp_all add: bulkImportCourses_def importGate_def perform_def bulkCatch_def push_def)
    qed
  qed
qed

theorem bulk_abort_witness:
  "role_denied (Some ''user'') \<and>
   report (bulkImportCourses mem_backend
      [candidate ''CSE101'' ''Dr. X'' None, candidate ''CSE102'' ''Dr. Y'' None]
      (mem_empty (session (Some ''user'') None))) =
     (0, [\<lparr>message = ''Bulk import failed: Permission denied: Only admins and section admins can import courses'',
           isWarning = False, isSuccess = False,
           details = Some ''Permission denied: Only admins and section admins can import courses''\<rparr>]) \<and>
   map fst (trace (bulkImportCourses mem_backend
      [candidate ''CSE101'' ''Dr. X'' None, candidate ''CSE102'' ''Dr. Y'' None]
      (mem_empty (session (Some ''user'') None)))) = [GetUser, SelectUserRole ''u1'']"
proof -
  let ?w = "mem_empty (session (Some ''user'') None)"
  have a: "fst (auth_getUser mem_backend ?w) = Resolved (session (Some ''user'') None)"
    by (simp add: mem_backend_def mem_empty_def)
  have b: "role_denied (role_of (session (Some ''user'') None))"
    by (simp add: role_denied_def role_of_def session_def)
  have c: "errors (bulkImportCourses mem_backend cs ?w) =
     [\<lparr>message = ''Bulk import failed: Permission denied: Only admins and section admins can import courses'',
           isWarning = False, isSuccess = False,
           details = Some ''Permission denied: Only admins and section admins can import courses''\<rparr>]" for cs
    by (simp add: bulkImportCourses_def importGate_def perform_def bulkCatch_def push_def
        mem_backend_def mem_empty_def session_def role_of_def role_denied_def)
  from bulk_abort[OF a b] b c show ?thesis
    by (simp add: report_def session_def role_of_def)
qed

text \<open>
  C9. The success count of a run equals the number of course inserts that came back with a
  row, and is at most the number of candidates. One row never lowers it, and raises it by
  the number of such inserts among the requests the row issued, which is 0 or 1.
\<close>

theorem success_count:
  "successCount (bulkImportCourses be courses w) =
     length (filter insertedCourse (trace (bulkImportCourses be courses w))) \<and>
   successCount (bulkImportCourses be courses w) \<le> length courses \<and>
   successCount s \<le> successCount (importRow be user userRole i course s) \<and>
   (\<exists>ext. trace (importRow be user userRole i course s) = trace s @ ext \<and>
          successCount (importRow be user userRole i course s) =
            successCount s + length (filter insertedCourse ext) \<and>
          length (filter insertedCourse ext) \<le> 1)"
  using bulk_count[of be courses w] importRow_trace[of be user userRole i course s]
    importRow_step[of s be user userRole i course]
  by simp

lemma mentions_already_exists:
  "js_includes (label @ ''A course with this code already exists'') ''already exists''"
proof -
  have "label @ ''A course with this code already exists'' =
        (label @ ''A course with this code '') @ ''already exists'' @ []" by simp
  then have "sublist ''already exists'' (label @ ''A course with this code already exists'')"
    by (metis sublist_appendI)
  then show ?thesis by (simp only: js_includes_sublist)
qed

lemmas mem_defs = mem_backend_def mem_empty_def session_def candidate_def start_def
  newTeacherRow_def newCourseRow_def teacherPayload_def importPayload_def js_or_def
  sectionId_of_def role_of_def show_nat.simps digit_char_def

lemmas row_defs = importRow_def resolveTeacher_def perform_def push_def rowCatch_def Let_def

lemma importRow_checks_code:
  assumes "\<not> (userRole = Some ''section_admin'' \<and> \<not> truthy (nc_section course))"
  shows "\<exists>st ext. trace (importRow be user userRole i course s) =
           trace s @ (SelectCourseByCode (nc_code course), st) # ext"
  using assms
  by (auto simp: importRow_def perform_def push_def rowCatch_def Let_def
      dest!: resolveTeacher_effect
      split: if_splits prod.splits awaited.splits pg.splits option.splits)

lemma importLoop_trace_prefix:
  "prefix (trace s) (trace (importLoop be user userRole i cs s))"
proof (induction cs arbitrary: i s)
  case Nil
  show ?case by simp
next
  case (Cons c cs)
  obtain ext where "trace (importRow be user userRole i c s) = trace s @ ext"
    using importRow_trace by blast
  then have "prefix (trace s) (trace (importRow be user userRole i c s))" by simp
  also have "prefix \<dots>
      (trace (importLoop be user userRole (Suc i) cs (importRow be user userRole i c s)))"
    by (rule Cons.IH)
  finally show ?case by simp
qed

lemma importLoop_processes_every_row:
  assumes "c \<in> set cs"
    and "\<not> (userRole = Some ''section_admin'' \<and> \<not> truthy (nc_section c))"
  shows "\<exists>st. (SelectCourseByCode (nc_code c), st) \<in> set (trace (importLoop be user userRole i cs s))"
  using assms(1)
proof (induction cs arbitrary: i s)
  case Nil
  then show ?case by simp
next
  case (Cons a cs)
  show ?case
  proof (cases "c = a")
    case True
    obtain st ext where t: "trace (importRow be user userRole i a s) =
        trace s @ (SelectCourseByCode (nc_code c), st) # ext"
      using importRow_checks_code[OF assms(2), of be user i s] True by blast
    have "prefix (trace (importRow be user userRole i a s))
        (trace (importLoop be user userRole (Suc i) cs (importRow be user userRole i a s)))"
      by (rule importLoop_trace_prefix)
    then have "set (trace (importRow be user userRole i a s)) \<subseteq>
        set (trace (importLoop be user userRole (Suc i) cs (importRow be user userRole i a s)))"
      by (rule set_mono_prefix)
    with t have "(SelectCourseByCode (nc_code c), st) \<in>
        set (trace (importLoop be user userRole i (a # cs) s))" by auto
    then show ?thesis by blast
  next
    case False
    with Cons.prems have "c \<in> set cs" by simp
    from Cons.IH[OF this] show ?thesis by simp
  qed
qed

lemma role_denied_iff:
  "role_denied r \<longleftrightarrow> r \<noteq> Some ''admin'' \<and> r \<noteq> Some ''section_admin''"
  by (cases r) (auto simp: role_denied_def)

section \<open>The batch, one candidate at a time\<close>

lemma gate_admits:
  assumes "sessionAdmits be w u"
  shows "\<exists>sg. importGate be \<lparr>world = w, trace = [], errors = [], successCount = 0\<rparr> =
           (Inr (Some u), sg)"
proof -
  obtain r w0 where g: "auth_getUser be w = (r, w0)" by (cases "auth_getUser be w")
  with assms have r: "r = Resolved (Some u)" and ok: "\<not> role_denied (user_role u)"
    and lk: "user_id u = [] \<or> resolved (fst (users_select_role be (user_id u) w0))"
    by (simp_all add: sessionAdmits_def)
  show ?thesis
  proof (cases "user_id u = []")
    case True
    with g r ok show ?thesis
      by (simp add: importGate_def perform_def role_of_def)
  next
    case False
    obtain q w1 where q: "users_select_role be (user_id u) w0 = (q, w1)"
      by (cases "users_select_role be (user_id u) w0")
    with lk False obtain d where "q = Resolved d" by (cases q) simp_all
    with g r ok q False show ?thesis
      by (simp add: importGate_def perform_def role_of_def)
  qed
qed

lemma bulk_loop:
  assumes "sessionAdmits be w u"
  shows "\<exists>sg. \<forall>cs. bulkImportCourses be cs w = importLoop be (Some u) (user_role u) 0 cs sg"
proof -
  from gate_admits[OF assms] obtain sg where
    "importGate be \<lparr>world = w, trace = [], errors = [], successCount = 0\<rparr> = (Inr (Some u), sg)"
    by blast
  then have "\<forall>cs. bulkImportCourses be cs w = importLoop be (Some u) (user_role u) 0 cs sg"
    by (simp add: bulkImportCourses_def role_of_def)
  then show ?thesis by blast
qed

lemma bulk_append:
  assumes "sessionAdmits be w u"
  shows "bulkImportCourses be (xs @ ys) w =
           importLoop be (Some u) (user_role u) (length xs) ys (bulkImportCourses be xs w)"
proof -
  from bulk_loop[OF assms] obtain sg where
    sg: "\<And>cs. bulkImportCourses be cs w = importLoop be (Some u) (user_role u) 0 cs sg"
    by blast
  show ?thesis by (simp add: sg importLoop_append)
qed

lemma bulk_snoc:
  assumes "sessionAdmits be w u"
  shows "bulkImportCourses be (xs @ [c]) w =
           importRow be (Some u) (user_role u) (length xs) c (bulkImportCourses be xs w)"
  by (simp add: bulk_append[OF assms])

lemma bulk_extends:
  "prefix (errors (bulkImportCourses be xs w)) (errors (bulkImportCourses be (xs @ ys) w)) \<and>
   prefix (trace (bulkImportCourses be xs w)) (trace (bulkImportCourses be (xs @ ys) w)) \<and>
   successCount (bulkImportCourses be xs w) \<le> successCount (bulkImportCourses be (xs @ ys) w)"
proof -
  let ?s0 = "\<lparr>world = w, trace = [], errors = [], successCount = 0\<rparr>"
  obtain r sg where g: "importGate be ?s0 = (r, sg)" by (cases "importGate be ?s0")
  show ?thesis
  proof (cases r)
    case (Inl m)
    with g show ?thesis by (simp add: bulkImportCourses_def)
  next
    case (Inr user)
    with g have b: "\<And>cs. bulkImportCourses be cs w = importLoop be user (role_of user) 0 cs sg"
      by (simp add: bulkImportCourses_def)
    show ?thesis
      using importLoop_errors_prefix[of "importLoop be user (role_of user) 0 xs sg" be user
          "role_of user" "length xs" ys]
        importLoop_trace_prefix[of "importLoop be user (role_of user) 0 xs sg" be user
          "role_of user" "length xs" ys]
        importLoop_bound[of "importLoop be user (role_of user) 0 xs sg" be user
          "role_of user" "length xs" ys]
      by (simp add: b importLoop_append)
  qed
qed

lemma bulk_after_row:
  "\<exists>le lt. errors (bulkImportCourses be (xs @ c # ys) w) =
             errors (bulkImportCourses be (xs @ [c]) w) @ le \<and>
           trace (bulkImportCourses be (xs @ c # ys) w) =
             trace (bulkImportCourses be (xs @ [c]) w) @ lt"
proof -
  from bulk_extends[of be "xs @ [c]" w ys]
  have "prefix (errors (bulkImportCourses be (xs @ [c]) w))
          (errors (bulkImportCourses be (xs @ c # ys) w))"
    and "prefix (trace (bulkImportCourses be (xs @ [c]) w))
          (trace (bulkImportCourses be (xs @ c # ys) w))"
    by simp_all
  then show ?thesis unfolding prefix_def by blast
qed

lemma bulk_processes_every_row:
  assumes "sessionAdmits be w u" and "c \<in> set cs"
    and "\<not> (user_role u = Some ''section_admin'' \<and> \<not> truthy (nc_section c))"
  shows "\<exists>st. (SelectCourseByCode (nc_code c), st) \<in> set (trace (bulkImportCourses be cs w))"
proof -
  from bulk_loop[OF assms(1)] obtain sg where
    sg: "\<And>cs. bulkImportCourses be cs w = importLoop be (Some u) (user_role u) 0 cs sg"
    by blast
  show ?thesis
    using importLoop_processes_every_row[OF assms(2) assms(3), of be "Some u" 0 sg]
    by (simp add: sg)
qed

lemma row_insert:
  assumes "courses_insert be (importPayload user course (formatClassTimes (nc_classTimes course))
             teacherId) (world s2) = (ir, w4)"
    and "\<not> (userRole = Some ''section_admin'' \<and> \<not> truthy (nc_section course))"
    and "courses_select_by_code be (nc_code course) (world s) = (Resolved (PgData None), w1)"
    and "resolveTeacher be user i course
           (s\<lparr>world := w1, trace := trace s @ [(SelectCourseByCode (nc_code course), Returned)]\<rparr>) =
         (Resolved teacherId, s2)"
  shows "importRow be user userRole i course s =
    s2\<lparr>world := w4,
       trace := trace s2 @
         [(InsertCourse (importPayload user course (formatClassTimes (nc_classTimes course))
             teacherId), pg_status ir)],
       errors := errors s2 @ insertEntries i course ir,
       successCount := successCount s2 + insertGain ir\<rparr>"
proof (cases ir)
  case (Resolved r)
  with assms show ?thesis
    by (cases r) (auto simp: importRow_def perform_def push_def rowCatch_def Let_def)
next
  case (Rejected m)
  with assms show ?thesis
    by (auto simp: importRow_def perform_def push_def rowCatch_def Let_def)
qed

lemma resolve_created:
  assumes "\<not> truthy (nc_teacherId course)" "nc_teacher course \<noteq> []"
    and "checkTeacherNameExists be (nc_teacher course) (world s) = (Resolved False, w2)"
    and "teachers_insert be (teacherPayload user course) w2 = (Resolved (PgData newTeacher), w3)"
  shows "resolveTeacher be user i course s =
    (Resolved (Some (t_id newTeacher)),
     s\<lparr>world := w3,
       trace := trace s @
         [(CheckTeacherNameExists (nc_teacher course), Returned),
          (InsertTeacher (teacherPayload user course), Returned)],
       errors := errors s @
         [\<lparr>message = ''Created teacher '' @ quoted (nc_teacher course) @ '' for course '' @
              quoted (nc_code course),
           isWarning = True, isSuccess = True, details = None\<rparr>]\<rparr>)"
  using assms by (simp add: resolveTeacher_def perform_def push_def Let_def)


lemma resolve_create_threw:
  assumes "\<not> truthy (nc_teacherId course)" "nc_teacher course \<noteq> []"
    and "checkTeacherNameExists be (nc_teacher course) (world s) = (Resolved False, w2)"
    and "teachers_insert be (teacherPayload user course) w2 = (Rejected m, w3)"
  shows "resolveTeacher be user i course s =
    (Resolved (nc_teacherId course),
     s\<lparr>world := w3,
       trace := trace s @
         [(CheckTeacherNameExists (nc_teacher course), Returned),
          (InsertTeacher (teacherPayload user course), Threw)],
       errors := errors s @
         [\<lparr>message = rowLabel i course @ ''Warning - Failed to create teacher: '' @ m,
           isWarning = True, isSuccess = False, details = None\<rparr>]\<rparr>)"
  using assms by (simp add: resolveTeacher_def perform_def push_def Let_def)

lemma resolve_lookup_threw:
  assumes "\<not> truthy (nc_teacherId course)" "nc_teacher course \<noteq> []"
    and "checkTeacherNameExists be (nc_teacher course) (world s) = (Resolved True, w2)"
    and "teachers_select_id be (nc_teacher course) w2 = (Rejected m, w3)"
  shows "resolveTeacher be user i course s =
    (Resolved (nc_teacherId course),
     s\<lparr>world := w3,
       trace := trace s @
         [(CheckTeacherNameExists (nc_teacher course), Returned),
          (SelectTeacherIdByName (nc_teacher course), Threw)]\<rparr>)"
  using assms by (simp add: resolveTeacher_def perform_def push_def Let_def)

lemma row_dup_found:
  assumes "\<not> (userRole = Some ''section_admin'' \<and> \<not> truthy (nc_section course))"
    and "courses_select_by_code be (nc_code course) (world s) =
           (Resolved (PgData (Some existing)), w')"
  shows "importRow be user userRole i course s =
        s\<lparr>world := w',
          trace := trace s @ [(SelectCourseByCode (nc_code course), Returned)],
          errors := errors s @
            [\<lparr>message = rowLabel i course @ ''A course with this code already exists'',
              isWarning = False, isSuccess = False, details = None\<rparr>]\<rparr>"
  using assms by (auto simp: importRow_def perform_def push_def rowCatch_def)

lemma row_dup_error:
  assumes "\<not> (userRole = Some ''section_admin'' \<and> \<not> truthy (nc_section course))"
    and "courses_select_by_code be (nc_code course) (world s) = (Resolved (PgError m), w')"
  shows "importRow be user userRole i course s =
        s\<lparr>world := w',
          trace := trace s @ [(SelectCourseByCode (nc_code course), ReturnedError)],
          errors := errors s @
            [\<lparr>message = rowLabel i course @ ''Error checking for existing course: '' @ m,
              isWarning = False, isSuccess = False,
              details = Some (''Error checking for existing course: '' @ m)\<rparr>]\<rparr>"
  using assms by (auto simp: importRow_def perform_def push_def rowCatch_def)

lemma row_dup_threw:
  assumes "\<not> (userRole = Some ''section_admin'' \<and> \<not> truthy (nc_section course))"
    and "courses_select_by_code be (nc_code course) (world s) = (Rejected m, w')"
  shows "importRow be user userRole i course s =
        s\<lparr>world := w',
          trace := trace s @ [(SelectCourseByCode (nc_code course), Threw)],
          errors := errors s @
            [\<lparr>message = rowLabel i course @ m, isWarning = False, isSuccess = False,
              details = Some m\<rparr>]\<rparr>"
  using assms by (auto simp: importRow_def perform_def push_def rowCatch_def)

lemma row_exists_threw:
  assumes "\<not> (userRole = Some ''section_admin'' \<and> \<not> truthy (nc_section course))"
    and "courses_select_by_code be (nc_code course) (world s) = (Resolved (PgData None), w1)"
    and "\<not> truthy (nc_teacherId course)" "nc_teacher course \<noteq> []"
    and "checkTeacherNameExists be (nc_teacher course) w1 = (Rejected m, w2)"
  shows "importRow be user userRole i course s =
          s\<lparr>world := w2,
            trace := trace s @
              [(SelectCourseByCode (nc_code course), Returned),
               (CheckTeacherNameExists (nc_teacher course), Threw)],
            errors := errors s @
              [\<lparr>message = rowLabel i course @ m, isWarning = False, isSuccess = False,
                details = Some m\<rparr>]\<rparr>"
  using assms by (auto simp: row_defs)

lemma row_section_skip:
  assumes "userRole = Some ''section_admin''" "\<not> truthy (nc_section course)"
  shows "importRow be user userRole i course s =
          s\<lparr>errors := errors s @
             [\<lparr>message = rowLabel i course @
                  ''Section admin must specify a section for the course'',
               isWarning = True, isSuccess = False, details = None\<rparr>]\<rparr>"
  using assms by (simp add: importRow_def push_def)

lemmas bulk_defs = bulkImportCourses_def importGate_def role_denied_def row_defs mem_defs
  rowLabel_def

lemma bulk_row_kept:
  "prefix (errors (bulkImportCourses be (xs @ [c]) w))
          (errors (bulkImportCourses be (xs @ c # ys) w)) \<and>
   prefix (trace (bulkImportCourses be (xs @ [c]) w))
          (trace (bulkImportCourses be (xs @ c # ys) w))"
  using bulk_extends[of be "xs @ [c]" w ys] by simp

lemma bulk_row_entries:
  "\<exists>new. errors (bulkImportCourses be (xs @ [c]) w) = errors (bulkImportCourses be xs w) @ new \<and>
         length new \<le> 2"
proof -
  let ?s0 = "\<lparr>world = w, trace = [], errors = [], successCount = 0\<rparr>"
  obtain r sg where g: "importGate be ?s0 = (r, sg)" by (cases "importGate be ?s0")
  show ?thesis
  proof (cases r)
    case (Inl m)
    with g show ?thesis by (simp add: bulkImportCourses_def)
  next
    case (Inr user)
    with g have b: "\<And>cs. bulkImportCourses be cs w = importLoop be user (role_of user) 0 cs sg"
      by (simp add: bulkImportCourses_def)
    show ?thesis
      using importRow_errors[of be user "role_of user" "length xs" c
          "importLoop be user (role_of user) 0 xs sg"]
      by (simp add: b importLoop_append)
  qed
qed

lemma bulk_denied:
  assumes "fst (auth_getUser be w) = Resolved user" and "role_denied (role_of user)"
  shows "successCount (bulkImportCourses be courses w) = 0 \<and>
         (\<exists>m. errors (bulkImportCourses be courses w) =
            [\<lparr>message = ''Bulk import failed: '' @ m, isWarning = False, isSuccess = False,
              details = Some m\<rparr>]) \<and>
         map fst (trace (bulkImportCourses be courses w)) =
           GetUser # (case user of
                        None \<Rightarrow> []
                      | Some u \<Rightarrow> if user_id u \<noteq> [] then [SelectUserRole (user_id u)] else [])"
proof -
  obtain w1 where g: "auth_getUser be w = (Resolved user, w1)"
    using assms(1) by (cases "auth_getUser be w") simp
  show ?thesis
  proof (cases user)
    case None
    with g assms(2) show ?thesis
      by (simp add: bulkImportCourses_def importGate_def perform_def bulkCatch_def push_def)
  next
    case (Some u)
    show ?thesis
    proof (cases "user_id u = []")
      case True
      with g assms(2) Some show ?thesis
        by (simp add: bulkImportCourses_def importGate_def perform_def bulkCatch_def push_def)
    next
      case False
      obtain r w2 where q: "users_select_role be (user_id u) w1 = (r, w2)"
        by (cases "users_select_role be (user_id u) w1")
      with g assms(2) Some False show ?thesis
        by (cases r)
          (simp_all add: bulkImportCourses_def importGate_def perform_def bulkCatch_def push_def)
    qed
  qed
qed

section \<open>The rows of a batch\<close>

text \<open>
  C4. Take a batch \<open>xs @ course # ys\<close> under a session that passes the gate, \<open>s\<close> the state of
  \<^verbatim>\<open>bulkImportCourses\<close> after the candidates \<open>xs\<close>, and a row that reaches the duplicate check
  (the section check of a \<^verbatim>\<open>section_admin\<close> comes first). If the lookup by code returns an
  existing course, \<^verbatim>\<open>bulkImportCourses\<close> on \<open>xs @ [course]\<close> is \<open>s\<close> with exactly one request
  more, the lookup, and exactly one entry more, not a warning, whose message contains
  \<^verbatim>\<open>already exists\<close>: no insert is issued and \<^verbatim>\<open>successCount\<close> is unchanged. If the lookup
  returns a store error, the row likewise adds the lookup and one non-warning entry and
  nothing else. In both cases the entry and the lookup stand at that position in the errors
  and in the trace of the whole batch, whatever the candidates \<open>ys\<close> that follow.
\<close>

theorem duplicate_code:
  assumes adm: "sessionAdmits be w u"
    and before: "s = bulkImportCourses be xs w"
    and sec: "\<not> (user_role u = Some ''section_admin'' \<and> \<not> truthy (nc_section course))"
  shows
    "(courses_select_by_code be (nc_code course) (world s) = (Resolved (PgData (Some existing)), w')
        \<longrightarrow>
      bulkImportCourses be (xs @ [course]) w =
        s\<lparr>world := w',
          trace := trace s @ [(SelectCourseByCode (nc_code course), Returned)],
          errors := errors s @
            [\<lparr>message = rowLabel (length xs) course @ ''A course with this code already exists'',
              isWarning = False, isSuccess = False, details = None\<rparr>]\<rparr> \<and>
      js_includes (rowLabel (length xs) course @ ''A course with this code already exists'')
        ''already exists'' \<and>
      successCount (bulkImportCourses be (xs @ [course]) w) = successCount s \<and>
      (\<exists>le lt.
         errors (bulkImportCourses be (xs @ course # ys) w) =
           errors s @
           \<lparr>message = rowLabel (length xs) course @ ''A course with this code already exists'',
             isWarning = False, isSuccess = False, details = None\<rparr> # le \<and>
         trace (bulkImportCourses be (xs @ course # ys) w) =
           trace s @ (SelectCourseByCode (nc_code course), Returned) # lt)) \<and>
     (courses_select_by_code be (nc_code course) (world s) = (Resolved (PgError m), w')
        \<longrightarrow>
      bulkImportCourses be (xs @ [course]) w =
        s\<lparr>world := w',
          trace := trace s @ [(SelectCourseByCode (nc_code course), ReturnedError)],
          errors := errors s @
            [\<lparr>message = rowLabel (length xs) course @
                 ''Error checking for existing course: '' @ m,
              isWarning = False, isSuccess = False,
              details = Some (''Error checking for existing course: '' @ m)\<rparr>]\<rparr> \<and>
      successCount (bulkImportCourses be (xs @ [course]) w) = successCount s \<and>
      (\<exists>le lt.
         errors (bulkImportCourses be (xs @ course # ys) w) =
           errors s @
           \<lparr>message = rowLabel (length xs) course @
                ''Error checking for existing course: '' @ m,
             isWarning = False, isSuccess = False,
             details = Some (''Error checking for existing course: '' @ m)\<rparr> # le \<and>
         trace (bulkImportCourses be (xs @ course # ys) w) =
           trace s @ (SelectCourseByCode (nc_code course), ReturnedError) # lt))"
proof -
  note row = bulk_snoc[OF adm, of xs course, folded before]
  obtain le lt where later:
    "errors (bulkImportCourses be (xs @ course # ys) w) =
       errors (bulkImportCourses be (xs @ [course]) w) @ le"
    "trace (bulkImportCourses be (xs @ course # ys) w) =
       trace (bulkImportCourses be (xs @ [course]) w) @ lt"
    using bulk_after_row[of be xs course ys w] by blast
  have found: "bulkImportCourses be (xs @ [course]) w =
        s\<lparr>world := w',
          trace := trace s @ [(SelectCourseByCode (nc_code course), Returned)],
          errors := errors s @
            [\<lparr>message = rowLabel (length xs) course @ ''A course with this code already exists'',
              isWarning = False, isSuccess = False, details = None\<rparr>]\<rparr>"
    if "courses_select_by_code be (nc_code course) (world s) =
          (Resolved (PgData (Some existing)), w')"
    using row_dup_found[OF sec that] row by simp
  have failed: "bulkImportCourses be (xs @ [course]) w =
        s\<lparr>world := w',
          trace := trace s @ [(SelectCourseByCode (nc_code course), ReturnedError)],
          errors := errors s @
            [\<lparr>message = rowLabel (length xs) course @
                 ''Error checking for existing course: '' @ m,
              isWarning = False, isSuccess = False,
              details = Some (''Error checking for existing course: '' @ m)\<rparr>]\<rparr>"
    if "courses_select_by_code be (nc_code course) (world s) = (Resolved (PgError m), w')"
    using row_dup_error[OF sec that] row by simp
  show ?thesis
    using found failed mentions_already_exists[of "rowLabel (length xs) course"]
    by (auto simp: later)
qed

theorem duplicate_code_witness:
  "report (bulkImportCourses mem_backend
      [candidate ''CSE101'' ''Dr. X'' None, candidate ''CSE101'' ''Dr. X'' None]
      (mem_empty (session (Some ''admin'') None))) =
     (1, [\<lparr>message = ''Created teacher '' @ quoted ''Dr. X'' @ '' for course '' @ quoted ''CSE101'',
           isWarning = True, isSuccess = True, details = None\<rparr>,
          \<lparr>message = ''Course #2 (CSE101): A course with this code already exists'',
           isWarning = False, isSuccess = False, details = None\<rparr>]) \<and>
   report (bulkImportCourses mem_backend [candidate ''CSE101'' ''Dr. X'' None]
      ((mem_empty (session (Some ''admin'') None))\<lparr>f_course_lookup := Fails ''timeout''\<rparr>)) =
     (0, [\<lparr>message = ''Course #1 (CSE101): Error checking for existing course: timeout'',
           isWarning = False, isSuccess = False,
           details = Some ''Error checking for existing course: timeout''\<rparr>])"
proof -
  let ?u = "\<lparr>user_id = ''u1'', user_role = Some ''admin'', user_sectionId = None\<rparr>"
  let ?c = "candidate ''CSE101'' ''Dr. X'' None"
  let ?wa = "mem_empty (session (Some ''admin'') None)"
  let ?wb = "?wa\<lparr>f_course_lookup := Fails ''timeout''\<rparr>"
  have sec: "\<not> (user_role ?u = Some ''section_admin'' \<and> \<not> truthy (nc_section ?c))" by simp
  have adm: "sessionAdmits mem_backend ?wa ?u" "sessionAdmits mem_backend ?wb ?u"
    by (simp_all add: sessionAdmits_def mem_backend_def mem_empty_def session_def role_denied_def)
  have lbl: "rowLabel (Suc 0) ?c = ''Course #2 (CSE101): ''"
    "rowLabel 0 ?c = ''Course #1 (CSE101): ''"
    by (simp_all add: rowLabel_def candidate_def show_nat.simps digit_char_def)

  let ?sa = "bulkImportCourses mem_backend [?c] ?wa"
  have first: "report ?sa =
      (1, [\<lparr>message = ''Created teacher '' @ quoted ''Dr. X'' @ '' for course '' @ quoted ''CSE101'',
            isWarning = True, isSuccess = True, details = None\<rparr>])"
    by (simp add: bulk_defs report_def)
  have dupa: "courses_select_by_code mem_backend (nc_code ?c) (world ?sa) =
      (Resolved (PgData (Some (''c1'', ''CSE101''))), world ?sa)"
    by (simp add: bulk_defs)
  from duplicate_code[OF adm(1) refl sec, where xs = "[?c]", THEN conjunct1, THEN mp, OF dupa]
  have "bulkImportCourses mem_backend ([?c] @ [?c]) ?wa =
      ?sa\<lparr>world := world ?sa,
        trace := trace ?sa @ [(SelectCourseByCode (nc_code ?c), Returned)],
        errors := errors ?sa @
          [\<lparr>message = rowLabel (length [?c]) ?c @ ''A course with this code already exists'',
            isWarning = False, isSuccess = False, details = None\<rparr>]\<rparr>"
    by (rule conjunct1)
  then have "report (bulkImportCourses mem_backend ([?c] @ [?c]) ?wa) =
      (fst (report ?sa), snd (report ?sa) @
          [\<lparr>message = rowLabel (Suc 0) ?c @ ''A course with this code already exists'',
            isWarning = False, isSuccess = False, details = None\<rparr>])"
    by (simp add: report_def)
  then have r1: "report (bulkImportCourses mem_backend [?c, ?c] ?wa) =
     (1, [\<lparr>message = ''Created teacher '' @ quoted ''Dr. X'' @ '' for course '' @ quoted ''CSE101'',
           isWarning = True, isSuccess = True, details = None\<rparr>,
          \<lparr>message = ''Course #2 (CSE101): A course with this code already exists'',
           isWarning = False, isSuccess = False, details = None\<rparr>])"
    by (simp add: first lbl)

  let ?sb = "bulkImportCourses mem_backend [] ?wb"
  have start: "report ?sb = (0, [])" by (simp add: bulk_defs report_def)
  have dupb: "courses_select_by_code mem_backend (nc_code ?c) (world ?sb) =
      (Resolved (PgError ''timeout''), world ?sb)"
    by (simp add: bulk_defs)
  from duplicate_code[OF adm(2) refl sec, where xs = "[]", THEN conjunct2, THEN mp, OF dupb]
  have "bulkImportCourses mem_backend ([] @ [?c]) ?wb =
      ?sb\<lparr>world := world ?sb,
        trace := trace ?sb @ [(SelectCourseByCode (nc_code ?c), ReturnedError)],
        errors := errors ?sb @
          [\<lparr>message = rowLabel (length ([] :: NewCourse list)) ?c @
               ''Error checking for existing course: '' @ ''timeout'',
            isWarning = False, isSuccess = False,
            details = Some (''Error checking for existing course: '' @ ''timeout'')\<rparr>]\<rparr>"
    by (rule conjunct1)
  then have "report (bulkImportCourses mem_backend ([] @ [?c]) ?wb) =
      (fst (report ?sb), snd (report ?sb) @
          [\<lparr>message = rowLabel 0 ?c @ ''Error checking for existing course: timeout'',
            isWarning = False, isSuccess = False,
            details = Some ''Error checking for existing course: timeout''\<rparr>])"
    by (simp add: report_def)
  then have r2: "report (bulkImportCourses mem_backend [?c] ?wb) =
     (0, [\<lparr>message = ''Course #1 (CSE101): Error checking for existing course: timeout'',
           isWarning = False, isSuccess = False,
           details = Some ''Error checking for existing course: timeout''\<rparr>])"
    by (simp add: start lbl)
  from r1 r2 show ?thesis by (intro conjI)
qed

text \<open>
  C5. Take a batch \<open>xs @ course # ys\<close> under a session that passes the gate, \<open>s\<close> the state of
  \<^verbatim>\<open>bulkImportCourses\<close> after the candidates \<open>xs\<close>, and a row that reaches teacher resolution
  with no teacher id and a teacher name for which \<^verbatim>\<open>checkTeacherNameExists\<close> answers false.
  The teacher insert carries the candidate's name, the phone \<^verbatim>\<open>'N/A'\<close> and as department the
  candidate's section or else the session's. When it returns a row, \<^verbatim>\<open>bulkImportCourses\<close> on
  \<open>xs @ [course]\<close> is \<open>s\<close> extended by the four requests of the row, the last of them the
  course insert with \<^verbatim>\<open>teacher_id\<close> the new teacher's id, by the warning flagged
  \<^verbatim>\<open>isSuccess\<close>, and by what the reply \<open>ir\<close> of the course insert adds. The warning stands at
  that position in the errors of the whole batch, whatever the candidates \<open>ys\<close> that follow.
\<close>

theorem teacher_created:
  assumes adm: "sessionAdmits be w u"
    and before: "s = bulkImportCourses be xs w"
    and sec: "\<not> (user_role u = Some ''section_admin'' \<and> \<not> truthy (nc_section course))"
    and dup: "courses_select_by_code be (nc_code course) (world s) = (Resolved (PgData None), w1)"
    and noid: "\<not> truthy (nc_teacherId course)"
    and name: "nc_teacher course \<noteq> []"
    and ex: "checkTeacherNameExists be (nc_teacher course) w1 = (Resolved False, w2)"
    and mk: "teachers_insert be (teacherPayload (Some u) course) w2 =
               (Resolved (PgData newTeacher), w3)"
    and ins: "courses_insert be
                (importPayload (Some u) course (formatClassTimes (nc_classTimes course))
                   (Some (t_id newTeacher))) w3 = (ir, w4)"
  shows "ti_name (teacherPayload (Some u) course) = nc_teacher course \<and>
         ti_phone (teacherPayload (Some u) course) = ''N/A'' \<and>
         ti_department (teacherPayload (Some u) course) =
           (if truthy (nc_section course) then nc_section course
            else if truthy (user_sectionId u) then user_sectionId u else None) \<and>
         ci_teacher_id
           (importPayload (Some u) course (formatClassTimes (nc_classTimes course))
              (Some (t_id newTeacher))) = Some (t_id newTeacher) \<and>
         bulkImportCourses be (xs @ [course]) w =
           s\<lparr>world := w4,
             trace := trace s @
               [(SelectCourseByCode (nc_code course), Returned),
                (CheckTeacherNameExists (nc_teacher course), Returned),
                (InsertTeacher (teacherPayload (Some u) course), Returned),
                (InsertCourse
                   (importPayload (Some u) course (formatClassTimes (nc_classTimes course))
                      (Some (t_id newTeacher))), pg_status ir)],
             errors := errors s @
               \<lparr>message = ''Created teacher '' @ quoted (nc_teacher course) @
                    '' for course '' @ quoted (nc_code course),
                 isWarning = True, isSuccess = True, details = None\<rparr> #
               insertEntries (length xs) course ir,
             successCount := successCount s + insertGain ir\<rparr> \<and>
         (\<exists>le. errors (bulkImportCourses be (xs @ course # ys) w) =
            errors s @
            \<lparr>message = ''Created teacher '' @ quoted (nc_teacher course) @
                 '' for course '' @ quoted (nc_code course),
              isWarning = True, isSuccess = True, details = None\<rparr> # le)"
proof -
  note row = bulk_snoc[OF adm, of xs course, folded before]
  obtain le where later:
    "errors (bulkImportCourses be (xs @ course # ys) w) =
       errors (bulkImportCourses be (xs @ [course]) w) @ le"
    using bulk_after_row[of be xs course ys w] by blast
  let ?s1 = "s\<lparr>world := w1,
                trace := trace s @ [(SelectCourseByCode (nc_code course), Returned)]\<rparr>"
  have res: "resolveTeacher be (Some u) (length xs) course ?s1 = (Resolved (Some (t_id newTeacher)),
     ?s1\<lparr>world := w3,
       trace := trace ?s1 @
         [(CheckTeacherNameExists (nc_teacher course), Returned),
          (InsertTeacher (teacherPayload (Some u) course), Returned)],
       errors := errors ?s1 @
         [\<lparr>message = ''Created teacher '' @ quoted (nc_teacher course) @ '' for course '' @
              quoted (nc_code course),
           isWarning = True, isSuccess = True, details = None\<rparr>]\<rparr>)"
    by (rule resolve_created[OF noid name _ mk]) (simp add: ex)
  have st: "bulkImportCourses be (xs @ [course]) w =
           s\<lparr>world := w4,
             trace := trace s @
               [(SelectCourseByCode (nc_code course), Returned),
                (CheckTeacherNameExists (nc_teacher course), Returned),
                (InsertTeacher (teacherPayload (Some u) course), Returned),
                (InsertCourse
                   (importPayload (Some u) course (formatClassTimes (nc_classTimes course))
                      (Some (t_id newTeacher))), pg_status ir)],
             errors := errors s @
               \<lparr>message = ''Created teacher '' @ quoted (nc_teacher course) @
                    '' for course '' @ quoted (nc_code course),
                 isWarning = True, isSuccess = True, details = None\<rparr> #
               insertEntries (length xs) course ir,
             successCount := successCount s + insertGain ir\<rparr>"
    unfolding row
    by (subst row_insert[OF _ sec dup res, where ir = ir and ?w4.0 = w4]) (simp_all add: ins)
  have pay: "ti_name (teacherPayload (Some u) course) = nc_teacher course \<and>
         ti_phone (teacherPayload (Some u) course) = ''N/A'' \<and>
         ti_department (teacherPayload (Some u) course) =
           (if truthy (nc_section course) then nc_section course
            else if truthy (user_sectionId u) then user_sectionId u else None) \<and>
         ci_teacher_id
           (importPayload (Some u) course (formatClassTimes (nc_classTimes course))
              (Some (t_id newTeacher))) = Some (t_id newTeacher)"
    by (simp add: teacherPayload_def importPayload_def js_or_def sectionId_of_def)
  have fin: "\<exists>le. errors (bulkImportCourses be (xs @ course # ys) w) =
            errors s @
            \<lparr>message = ''Created teacher '' @ quoted (nc_teacher course) @
                 '' for course '' @ quoted (nc_code course),
              isWarning = True, isSuccess = True, details = None\<rparr> # le"
    by (simp add: later st)
  from pay st fin show ?thesis by (intro conjI) simp_all
qed

theorem teacher_created_witness:
  "report (bulkImportCourses mem_backend [candidate ''CSE101'' ''Dr. X'' None]
      (mem_empty (session (Some ''admin'') (Some ''S1'')))) =
     (1, [\<lparr>message = ''Created teacher '' @ quoted ''Dr. X'' @ '' for course '' @ quoted ''CSE101'',
           isWarning = True, isSuccess = True, details = None\<rparr>]) \<and>
   map fst (trace (bulkImportCourses mem_backend [candidate ''CSE101'' ''Dr. X'' None]
      (mem_empty (session (Some ''admin'') (Some ''S1''))))) =
     [GetUser, SelectUserRole ''u1'',
      SelectCourseByCode ''CSE101'', CheckTeacherNameExists ''Dr. X'',
      InsertTeacher \<lparr>ti_name = ''Dr. X'', ti_phone = ''N/A'', ti_department = Some ''S1''\<rparr>,
      InsertCourse
        \<lparr>ci_name = ''Course CSE101'', ci_code = ''CSE101'', ci_teacher = ''Dr. X'',
         ci_class_time = ''Mon at 10:00 in R1'', ci_telegram_group = None, ci_blc_link = None,
         ci_blc_enroll_key = None, ci_credit = Some 3, ci_section = Some ''S1'',
         ci_teacher_id = Some ''t1''\<rparr>]"
proof -
  let ?u = "\<lparr>user_id = ''u1'', user_role = Some ''admin'', user_sectionId = Some ''S1''\<rparr>"
  let ?c = "candidate ''CSE101'' ''Dr. X'' None"
  let ?w = "mem_empty (session (Some ''admin'') (Some ''S1''))"
  let ?s = "bulkImportCourses mem_backend [] ?w"
  let ?t = "newTeacherRow ?w (teacherPayload (Some ?u) ?c)"
  let ?wt = "?w\<lparr>m_teachers := [?t]\<rparr>"
  let ?p = "importPayload (Some ?u) ?c (formatClassTimes (nc_classTimes ?c)) (Some (t_id ?t))"
  have adm: "sessionAdmits mem_backend ?w ?u"
    by (simp add: sessionAdmits_def mem_backend_def mem_empty_def session_def role_denied_def)
  have sec: "\<not> (user_role ?u = Some ''section_admin'' \<and> \<not> truthy (nc_section ?c))" by simp
  have s0: "world ?s = ?w" "errors ?s = []" "successCount ?s = 0"
    "trace ?s = [(GetUser, Returned), (SelectUserRole ''u1'', Returned)]"
    by (simp_all add: bulk_defs)
  have "courses_select_by_code mem_backend (nc_code ?c) ?w = (Resolved (PgData None), ?w)"
    by (simp add: mem_defs)
  then have dup: "courses_select_by_code mem_backend (nc_code ?c) (world ?s) =
      (Resolved (PgData None), ?w)"
    by (simp only: s0(1))
  have noid: "\<not> truthy (nc_teacherId ?c)" and name: "nc_teacher ?c \<noteq> []"
    by (simp_all add: candidate_def)
  have ex: "checkTeacherNameExists mem_backend (nc_teacher ?c) ?w = (Resolved False, ?w)"
    by (simp add: mem_defs)
  have mk: "teachers_insert mem_backend (teacherPayload (Some ?u) ?c) ?w =
      (Resolved (PgData ?t), ?wt)"
    by (simp add: mem_backend_def mem_empty_def)
  have ins: "courses_insert mem_backend ?p ?wt =
      (Resolved (PgData (newCourseRow ?wt ?p)), ?wt\<lparr>m_courses := [newCourseRow ?wt ?p]\<rparr>)"
    by (simp add: mem_backend_def mem_empty_def)
  from teacher_created[OF adm refl sec dup noid name ex mk ins,
      THEN conjunct2, THEN conjunct2, THEN conjunct2, THEN conjunct2, THEN conjunct1]
  have st: "bulkImportCourses mem_backend [?c] ?w =
      ?s\<lparr>world := ?wt\<lparr>m_courses := [newCourseRow ?wt ?p]\<rparr>,
        trace := trace ?s @
          [(SelectCourseByCode (nc_code ?c), Returned),
           (CheckTeacherNameExists (nc_teacher ?c), Returned),
           (InsertTeacher (teacherPayload (Some ?u) ?c), Returned),
           (InsertCourse ?p, Returned)],
        errors := errors ?s @
          [\<lparr>message = ''Created teacher '' @ quoted (nc_teacher ?c) @ '' for course '' @
               quoted (nc_code ?c),
            isWarning = True, isSuccess = True, details = None\<rparr>],
        successCount := successCount ?s + 1\<rparr>"
    by simp
  have rp: "report (bulkImportCourses mem_backend [?c] ?w) =
     (1, [\<lparr>message = ''Created teacher '' @ quoted (nc_teacher ?c) @ '' for course '' @
               quoted (nc_code ?c),
           isWarning = True, isSuccess = True, details = None\<rparr>])"
    by (simp add: st s0 report_def)
  have tr: "map fst (trace (bulkImportCourses mem_backend [?c] ?w)) =
     [GetUser, SelectUserRole ''u1'', SelectCourseByCode (nc_code ?c),
      CheckTeacherNameExists (nc_teacher ?c), InsertTeacher (teacherPayload (Some ?u) ?c),
      InsertCourse ?p]"
    by (simp add: st s0)
  from rp have r1: "report (bulkImportCourses mem_backend [?c] ?w) =
     (1, [\<lparr>message = ''Created teacher '' @ quoted ''Dr. X'' @ '' for course '' @ quoted ''CSE101'',
           isWarning = True, isSuccess = True, details = None\<rparr>])"
    by (simp add: candidate_def)
  from tr have r2: "map fst (trace (bulkImportCourses mem_backend [?c] ?w)) =
     [GetUser, SelectUserRole ''u1'',
      SelectCourseByCode ''CSE101'', CheckTeacherNameExists ''Dr. X'',
      InsertTeacher \<lparr>ti_name = ''Dr. X'', ti_phone = ''N/A'', ti_department = Some ''S1''\<rparr>,
      InsertCourse
        \<lparr>ci_name = ''Course CSE101'', ci_code = ''CSE101'', ci_teacher = ''Dr. X'',
         ci_class_time = ''Mon at 10:00 in R1'', ci_telegram_group = None, ci_blc_link = None,
         ci_blc_enroll_key = None, ci_credit = Some 3, ci_section = Some ''S1'',
         ci_teacher_id = Some ''t1''\<rparr>]"
    by (simp add: mem_defs formatClassTimes_def renderClassTime_def)
  from r1 r2 show ?thesis by (intro conjI)
qed



text \<open>
  C3 (as amended). Take a batch \<open>xs @ course # ys\<close> under a session that passes the gate, \<open>s\<close>
  the state of \<^verbatim>\<open>bulkImportCourses\<close> after the candidates \<open>xs\<close>, and a row that reaches the
  duplicate check. An exception thrown by the duplicate check, by \<^verbatim>\<open>checkTeacherNameExists\<close>
  or by the course insert ends the row in its \<^verbatim>\<open>catch\<close>: \<^verbatim>\<open>bulkImportCourses\<close> on
  \<open>xs @ [course]\<close> is the state before the throwing request plus that request and one
  non-warning entry with the row's number, code and the message. An exception thrown by the
  teacher insert becomes a warning, and one thrown by the teacher-id lookup leaves no entry;
  in both cases the course insert is issued, and its reply \<open>ir\<close> decides the rest of the row.
  Whatever the row did, the batch goes on: its final state is the loop over \<open>ys\<close> started from
  the state after the row, the entries and requests made so far stay in front, and every
  candidate of the batch that passes the section check has its lookup by code in the final
  trace. The class-time encoding is a total function of a candidate of type \<^verbatim>\<open>NewCourse\<close>
  and throws nothing.
\<close>

theorem row_exceptions:
  assumes adm: "sessionAdmits be w u"
    and before: "s = bulkImportCourses be xs w"
    and sec: "\<not> (user_role u = Some ''section_admin'' \<and> \<not> truthy (nc_section course))"
  shows
    "(courses_select_by_code be (nc_code course) (world s) = (Rejected m, w1) \<longrightarrow>
        bulkImportCourses be (xs @ [course]) w =
          s\<lparr>world := w1,
            trace := trace s @ [(SelectCourseByCode (nc_code course), Threw)],
            errors := errors s @
              [\<lparr>message = rowLabel (length xs) course @ m, isWarning = False,
                isSuccess = False, details = Some m\<rparr>]\<rparr>) \<and>
     (courses_select_by_code be (nc_code course) (world s) = (Resolved (PgData None), w1) \<and>
      \<not> truthy (nc_teacherId course) \<and> nc_teacher course \<noteq> [] \<and>
      checkTeacherNameExists be (nc_teacher course) w1 = (Rejected m, w2) \<longrightarrow>
        bulkImportCourses be (xs @ [course]) w =
          s\<lparr>world := w2,
            trace := trace s @
              [(SelectCourseByCode (nc_code course), Returned),
               (CheckTeacherNameExists (nc_teacher course), Threw)],
            errors := errors s @
              [\<lparr>message = rowLabel (length xs) course @ m, isWarning = False,
                isSuccess = False, details = Some m\<rparr>]\<rparr>) \<and>
     (courses_select_by_code be (nc_code course) (world s) = (Resolved (PgData None), w1) \<and>
      resolveTeacher be (Some u) (length xs) course
          (s\<lparr>world := w1,
             trace := trace s @ [(SelectCourseByCode (nc_code course), Returned)]\<rparr>) =
        (Resolved teacherId, s2) \<and>
      courses_insert be
          (importPayload (Some u) course (formatClassTimes (nc_classTimes course)) teacherId)
          (world s2) = (Rejected m, w3) \<longrightarrow>
        bulkImportCourses be (xs @ [course]) w =
          s2\<lparr>world := w3,
             trace := trace s2 @
               [(InsertCourse
                   (importPayload (Some u) course (formatClassTimes (nc_classTimes course))
                      teacherId), Threw)],
             errors := errors s2 @
               [\<lparr>message = rowLabel (length xs) course @ m, isWarning = False,
                 isSuccess = False, details = Some m\<rparr>]\<rparr>) \<and>
     (courses_select_by_code be (nc_code course) (world s) = (Resolved (PgData None), w1) \<and>
      \<not> truthy (nc_teacherId course) \<and> nc_teacher course \<noteq> [] \<and>
      checkTeacherNameExists be (nc_teacher course) w1 = (Resolved False, w2) \<and>
      teachers_insert be (teacherPayload (Some u) course) w2 = (Rejected m, w3) \<and>
      courses_insert be
          (importPayload (Some u) course (formatClassTimes (nc_classTimes course))
             (nc_teacherId course)) w3 = (ir, w4) \<longrightarrow>
        bulkImportCourses be (xs @ [course]) w =
          s\<lparr>world := w4,
            trace := trace s @
              [(SelectCourseByCode (nc_code course), Returned),
               (CheckTeacherNameExists (nc_teacher course), Returned),
               (InsertTeacher (teacherPayload (Some u) course), Threw),
               (InsertCourse
                  (importPayload (Some u) course (formatClassTimes (nc_classTimes course))
                     (nc_teacherId course)), pg_status ir)],
            errors := errors s @
              \<lparr>message = rowLabel (length xs) course @
                   ''Warning - Failed to create teacher: '' @ m,
                isWarning = True, isSuccess = False, details = None\<rparr> #
              insertEntries (length xs) course ir,
            successCount := successCount s + insertGain ir\<rparr>) \<and>
     (courses_select_by_code be (nc_code course) (world s) = (Resolved (PgData None), w1) \<and>
      \<not> truthy (nc_teacherId course) \<and> nc_teacher course \<noteq> [] \<and>
      checkTeacherNameExists be (nc_teacher course) w1 = (Resolved True, w2) \<and>
      teachers_select_id be (nc_teacher course) w2 = (Rejected m, w3) \<and>
      courses_insert be
          (importPayload (Some u) course (formatClassTimes (nc_classTimes course))
             (nc_teacherId course)) w3 = (ir, w4) \<longrightarrow>
        bulkImportCourses be (xs @ [course]) w =
          s\<lparr>world := w4,
            trace := trace s @
              [(SelectCourseByCode (nc_code course), Returned),
               (CheckTeacherNameExists (nc_teacher course), Returned),
               (SelectTeacherIdByName (nc_teacher course), Threw),
               (InsertCourse
                  (importPayload (Some u) course (formatClassTimes (nc_classTimes course))
                     (nc_teacherId course)), pg_status ir)],
            errors := errors s @ insertEntries (length xs) course ir,
            successCount := successCount s + insertGain ir\<rparr>) \<and>
     bulkImportCourses be (xs @ course # ys) w =
       importLoop be (Some u) (user_role u) (Suc (length xs)) ys
         (bulkImportCourses be (xs @ [course]) w) \<and>
     prefix (errors (bulkImportCourses be (xs @ [course]) w))
            (errors (bulkImportCourses be (xs @ course # ys) w)) \<and>
     prefix (trace (bulkImportCourses be (xs @ [course]) w))
            (trace (bulkImportCourses be (xs @ course # ys) w)) \<and>
     (c \<in> set (xs @ course # ys) \<and>
      \<not> (user_role u = Some ''section_admin'' \<and> \<not> truthy (nc_section c)) \<longrightarrow>
        (\<exists>st. (SelectCourseByCode (nc_code c), st) \<in>
           set (trace (bulkImportCourses be (xs @ course # ys) w))))"
proof -
  note row = bulk_snoc[OF adm, of xs course, folded before]
  let ?s1 = "s\<lparr>world := w1,
                trace := trace s @ [(SelectCourseByCode (nc_code course), Returned)]\<rparr>"
  have a: "bulkImportCourses be (xs @ [course]) w =
          s\<lparr>world := w1,
            trace := trace s @ [(SelectCourseByCode (nc_code course), Threw)],
            errors := errors s @
              [\<lparr>message = rowLabel (length xs) course @ m, isWarning = False,
                isSuccess = False, details = Some m\<rparr>]\<rparr>"
    if "courses_select_by_code be (nc_code course) (world s) = (Rejected m, w1)"
    using row_dup_threw[OF sec that] row by simp
  have b: "bulkImportCourses be (xs @ [course]) w =
          s\<lparr>world := w2,
            trace := trace s @
              [(SelectCourseByCode (nc_code course), Returned),
               (CheckTeacherNameExists (nc_teacher course), Threw)],
            errors := errors s @
              [\<lparr>message = rowLabel (length xs) course @ m, isWarning = False,
                isSuccess = False, details = Some m\<rparr>]\<rparr>"
    if "courses_select_by_code be (nc_code course) (world s) = (Resolved (PgData None), w1)"
      "\<not> truthy (nc_teacherId course)" "nc_teacher course \<noteq> []"
      "checkTeacherNameExists be (nc_teacher course) w1 = (Rejected m, w2)"
    using row_exists_threw[OF sec that] row by simp
  have c: "bulkImportCourses be (xs @ [course]) w =
          s2\<lparr>world := w3,
             trace := trace s2 @
               [(InsertCourse
                   (importPayload (Some u) course (formatClassTimes (nc_classTimes course))
                      teacherId), Threw)],
             errors := errors s2 @
               [\<lparr>message = rowLabel (length xs) course @ m, isWarning = False,
                 isSuccess = False, details = Some m\<rparr>]\<rparr>"
    if "courses_select_by_code be (nc_code course) (world s) = (Resolved (PgData None), w1)"
      "resolveTeacher be (Some u) (length xs) course ?s1 = (Resolved teacherId, s2)"
      "courses_insert be
          (importPayload (Some u) course (formatClassTimes (nc_classTimes course)) teacherId)
          (world s2) = (Rejected m, w3)"
    using row_insert[OF that(3) sec that(1) that(2)] row by simp
  have d: "bulkImportCourses be (xs @ [course]) w =
          s\<lparr>world := w4,
            trace := trace s @
              [(SelectCourseByCode (nc_code course), Returned),
               (CheckTeacherNameExists (nc_teacher course), Returned),
               (InsertTeacher (teacherPayload (Some u) course), Threw),
               (InsertCourse
                  (importPayload (Some u) course (formatClassTimes (nc_classTimes course))
                     (nc_teacherId course)), pg_status ir)],
            errors := errors s @
              \<lparr>message = rowLabel (length xs) course @
                   ''Warning - Failed to create teacher: '' @ m,
                isWarning = True, isSuccess = False, details = None\<rparr> #
              insertEntries (length xs) course ir,
            successCount := successCount s + insertGain ir\<rparr>"
    if dup: "courses_select_by_code be (nc_code course) (world s) = (Resolved (PgData None), w1)"
      and noid: "\<not> truthy (nc_teacherId course)" and name: "nc_teacher course \<noteq> []"
      and ex: "checkTeacherNameExists be (nc_teacher course) w1 = (Resolved False, w2)"
      and mk: "teachers_insert be (teacherPayload (Some u) course) w2 = (Rejected m, w3)"
      and ins: "courses_insert be
          (importPayload (Some u) course (formatClassTimes (nc_classTimes course))
             (nc_teacherId course)) w3 = (ir, w4)"
  proof -
    have res: "resolveTeacher be (Some u) (length xs) course ?s1 =
      (Resolved (nc_teacherId course),
       ?s1\<lparr>world := w3,
         trace := trace ?s1 @
           [(CheckTeacherNameExists (nc_teacher course), Returned),
            (InsertTeacher (teacherPayload (Some u) course), Threw)],
         errors := errors ?s1 @
           [\<lparr>message = rowLabel (length xs) course @
                ''Warning - Failed to create teacher: '' @ m,
             isWarning = True, isSuccess = False, details = None\<rparr>]\<rparr>)"
      by (rule resolve_create_threw[OF noid name _ mk]) (simp add: ex)
    show ?thesis
      unfolding row
      by (subst row_insert[OF _ sec dup res, where ir = ir and ?w4.0 = w4]) (simp_all add: ins)
  qed
  have e: "bulkImportCourses be (xs @ [course]) w =
          s\<lparr>world := w4,
            trace := trace s @
              [(SelectCourseByCode (nc_code course), Returned),
               (CheckTeacherNameExists (nc_teacher course), Returned),
               (SelectTeacherIdByName (nc_teacher course), Threw),
               (InsertCourse
                  (importPayload (Some u) course (formatClassTimes (nc_classTimes course))
                     (nc_teacherId course)), pg_status ir)],
            errors := errors s @ insertEntries (length xs) course ir,
            successCount := successCount s + insertGain ir\<rparr>"
    if dup: "courses_select_by_code be (nc_code course) (world s) = (Resolved (PgData None), w1)"
      and noid: "\<not> truthy (nc_teacherId course)" and name: "nc_teacher course \<noteq> []"
      and ex: "checkTeacherNameExists be (nc_teacher course) w1 = (Resolved True, w2)"
      and lk: "teachers_select_id be (nc_teacher course) w2 = (Rejected m, w3)"
      and ins: "courses_insert be
          (importPayload (Some u) course (formatClassTimes (nc_classTimes course))
             (nc_teacherId course)) w3 = (ir, w4)"
  proof -
    have res: "resolveTeacher be (Some u) (length xs) course ?s1 =
      (Resolved (nc_teacherId course),
       ?s1\<lparr>world := w3,
         trace := trace ?s1 @
           [(CheckTeacherNameExists (nc_teacher course), Returned),
            (SelectTeacherIdByName (nc_teacher course), Threw)]\<rparr>)"
      by (rule resolve_lookup_threw[OF noid name _ lk]) (simp add: ex)
    show ?thesis
      unfolding row
      by (subst row_insert[OF _ sec dup res, where ir = ir and ?w4.0 = w4]) (simp_all add: ins)
  qed
  have f: "bulkImportCourses be (xs @ course # ys) w =
       importLoop be (Some u) (user_role u) (Suc (length xs)) ys
         (bulkImportCourses be (xs @ [course]) w)"
    using bulk_append[OF adm, of "xs @ [course]" ys] by simp
  have g: "\<exists>st. (SelectCourseByCode (nc_code c), st) \<in>
           set (trace (bulkImportCourses be (xs @ course # ys) w))"
    if "c \<in> set (xs @ course # ys)"
      "\<not> (user_role u = Some ''section_admin'' \<and> \<not> truthy (nc_section c))"
    using bulk_processes_every_row[OF adm that] .
  show ?thesis
    using a b c d e f g bulk_row_kept[of be xs course w ys] by (intro conjI impI) blast+
qed

theorem row_exceptions_witness:
  "report (bulkImportCourses mem_backend [candidate ''CSE101'' ''Dr. X'' None]
      ((mem_empty (session (Some ''admin'') None))\<lparr>f_course_lookup := Throws ''offline''\<rparr>)) =
     (0, [\<lparr>message = ''Course #1 (CSE101): offline'', isWarning = False, isSuccess = False,
           details = Some ''offline''\<rparr>]) \<and>
   report (bulkImportCourses mem_backend
      [candidate ''CSE101'' [] None, candidate ''CSE102'' ''Dr. X'' None]
      ((mem_empty (session (Some ''admin'') None))\<lparr>f_teacher_exists := Throws ''offline''\<rparr>)) =
     (1, [\<lparr>message = ''Course #2 (CSE102): offline'', isWarning = False, isSuccess = False,
           details = Some ''offline''\<rparr>]) \<and>
   report (bulkImportCourses mem_backend [candidate ''CSE101'' [] None]
      ((mem_empty (session (Some ''admin'') None))\<lparr>f_course_insert := Throws ''offline''\<rparr>)) =
     (0, [\<lparr>message = ''Course #1 (CSE101): offline'', isWarning = False, isSuccess = False,
           details = Some ''offline''\<rparr>]) \<and>
   report (bulkImportCourses mem_backend [candidate ''CSE101'' ''Dr. X'' None]
      ((mem_empty (session (Some ''admin'') None))\<lparr>f_teacher_insert := Throws ''offline''\<rparr>)) =
     (1, [\<lparr>message = ''Course #1 (CSE101): Warning - Failed to create teacher: offline'',
           isWarning = True, isSuccess = False, details = None\<rparr>]) \<and>
   report (bulkImportCourses mem_backend [candidate ''CSE101'' ''Dr. X'' None]
      ((mem_empty (session (Some ''admin'') None))
         \<lparr>m_teachers := [\<lparr>t_id = ''t1'', t_name = ''Dr. X'', t_phone = ''N/A'',
                            t_department = None\<rparr>],
          f_teacher_lookup := Throws ''offline''\<rparr>)) = (1, []) \<and>
   report (bulkImportCourses mem_backend
      [candidate ''CSE101'' [] None, candidate ''CSE102'' ''Dr. X'' None,
       candidate ''CSE103'' [] None]
      ((mem_empty (session (Some ''admin'') None))\<lparr>f_teacher_exists := Throws ''offline''\<rparr>)) =
     (2, [\<lparr>message = ''Course #2 (CSE102): offline'', isWarning = False, isSuccess = False,
           details = Some ''offline''\<rparr>]) \<and>
   SelectCourseByCode ''CSE103'' \<in> fst ` set (trace (bulkImportCourses mem_backend
      [candidate ''CSE101'' [] None, candidate ''CSE102'' ''Dr. X'' None,
       candidate ''CSE103'' [] None]
      ((mem_empty (session (Some ''admin'') None))\<lparr>f_teacher_exists := Throws ''offline''\<rparr>)))"
proof -
  let ?u = "\<lparr>user_id = ''u1'', user_role = Some ''admin'', user_sectionId = None\<rparr>"
  let ?c = "candidate ''CSE101'' ''Dr. X'' None"
  let ?ca = "candidate ''CSE101'' [] None"
  let ?cb = "candidate ''CSE102'' ''Dr. X'' None"
  let ?cc = "candidate ''CSE103'' [] None"
  let ?e = "mem_empty (session (Some ''admin'') None)"
  have sec: "\<not> (user_role ?u = Some ''section_admin'' \<and> \<not> truthy (nc_section c))" for c
    by simp
  have adm: "sessionAdmits mem_backend w ?u" if "m_user w = Some ?u" for w
    using that by (simp add: sessionAdmits_def mem_backend_def role_denied_def)
  have usr: "m_user ?e = Some ?u" by (simp add: mem_empty_def session_def)
  have lbl: "rowLabel 0 ?c = ''Course #1 (CSE101): ''" "rowLabel 0 ?ca = ''Course #1 (CSE101): ''"
    "rowLabel (Suc 0) ?cb = ''Course #2 (CSE102): ''"
    by (simp_all add: rowLabel_def candidate_def show_nat.simps digit_char_def)
  have noid: "\<not> truthy (nc_teacherId (candidate k t None))" for k t
    by (simp add: candidate_def)
  have name: "nc_teacher ?c \<noteq> []" "nc_teacher ?cb \<noteq> []" by (simp_all add: candidate_def)
  have gate: "world (bulkImportCourses mem_backend [] w) = w \<and>
      errors (bulkImportCourses mem_backend [] w) = [] \<and>
      successCount (bulkImportCourses mem_backend [] w) = 0"
    if "m_user w = Some ?u" for w
    using that by (simp add: bulkImportCourses_def importGate_def role_denied_def perform_def
        mem_backend_def role_of_def)

  let ?wa = "?e\<lparr>f_course_lookup := Throws ''offline''\<rparr>"
  let ?sa = "bulkImportCourses mem_backend [] ?wa"
  have ua: "m_user ?wa = Some ?u" using usr by simp
  have ga: "world ?sa = ?wa" "errors ?sa = []" "successCount ?sa = 0"
    using gate[OF ua] by simp_all
  have "courses_select_by_code mem_backend (nc_code ?c) ?wa = (Rejected ''offline'', ?wa)"
    by (simp add: mem_defs)
  then have h1: "courses_select_by_code mem_backend (nc_code ?c) (world ?sa) =
      (Rejected ''offline'', ?wa)"
    by (simp only: ga(1))
  from row_exceptions[OF adm[OF ua] refl sec, THEN conjunct1, THEN mp, OF h1]
  have r1: "report (bulkImportCourses mem_backend [?c] ?wa) =
     (0, [\<lparr>message = ''Course #1 (CSE101): offline'', isWarning = False, isSuccess = False,
           details = Some ''offline''\<rparr>])"
    by (simp add: report_def lbl ga)

  let ?wb = "?e\<lparr>f_teacher_exists := Throws ''offline''\<rparr>"
  let ?sb = "bulkImportCourses mem_backend [?ca] ?wb"
  let ?wb1 = "world ?sb"
  have ub: "m_user ?wb = Some ?u" using usr by simp
  have gb: "report ?sb = (1, [])"
    by (simp add: bulk_defs report_def)
  have h2: "courses_select_by_code mem_backend (nc_code ?cb) (world ?sb) =
      (Resolved (PgData None), ?wb1)"
    "checkTeacherNameExists mem_backend (nc_teacher ?cb) ?wb1 = (Rejected ''offline'', ?wb1)"
    by (simp_all add: bulk_defs)
  from row_exceptions[OF adm[OF ub] refl sec, THEN conjunct2, THEN conjunct1, THEN mp,
      OF conjI[OF h2(1) conjI[OF noid conjI[OF name(2) h2(2)]]]]
  have "report (bulkImportCourses mem_backend ([?ca] @ [?cb]) ?wb) =
     (fst (report ?sb), snd (report ?sb) @
        [\<lparr>message = rowLabel (Suc 0) ?cb @ ''offline'', isWarning = False, isSuccess = False,
           details = Some ''offline''\<rparr>])"
    by (simp add: report_def)
  then have r2: "report (bulkImportCourses mem_backend [?ca, ?cb] ?wb) =
     (1, [\<lparr>message = ''Course #2 (CSE102): offline'', isWarning = False, isSuccess = False,
           details = Some ''offline''\<rparr>])"
    by (simp add: gb lbl)

  let ?wc = "?e\<lparr>f_course_insert := Throws ''offline''\<rparr>"
  let ?sc = "bulkImportCourses mem_backend [] ?wc"
  let ?sc1 = "?sc\<lparr>world := ?wc,
      trace := trace ?sc @ [(SelectCourseByCode (nc_code ?ca), Returned)]\<rparr>"
  have uc: "m_user ?wc = Some ?u" using usr by simp
  have gc: "world ?sc = ?wc" "errors ?sc = []" "successCount ?sc = 0"
    using gate[OF uc] by simp_all
  have "courses_select_by_code mem_backend (nc_code ?ca) ?wc = (Resolved (PgData None), ?wc)"
    by (simp add: mem_defs)
  then have h3a: "courses_select_by_code mem_backend (nc_code ?ca) (world ?sc) =
      (Resolved (PgData None), ?wc)"
    by (simp only: gc(1))
  have h3b: "resolveTeacher mem_backend (Some ?u) (length ([] :: NewCourse list)) ?ca ?sc1 =
      (Resolved None, ?sc1)"
    by (simp add: resolveTeacher_def candidate_def)
  have h3c: "courses_insert mem_backend
       (importPayload (Some ?u) ?ca (formatClassTimes (nc_classTimes ?ca)) None) (world ?sc1) =
     (Rejected ''offline'', ?wc)"
    by (simp add: mem_backend_def mem_empty_def)
  from row_exceptions[OF adm[OF uc] refl sec, THEN conjunct2, THEN conjunct2, THEN conjunct1,
      THEN mp, OF conjI[OF h3a conjI[OF h3b h3c]]]
  have r3: "report (bulkImportCourses mem_backend [?ca] ?wc) =
     (0, [\<lparr>message = ''Course #1 (CSE101): offline'', isWarning = False, isSuccess = False,
           details = Some ''offline''\<rparr>])"
    by (simp add: report_def lbl gc)

  let ?p = "importPayload (Some ?u) ?c (formatClassTimes (nc_classTimes ?c)) (nc_teacherId ?c)"
  let ?wd = "?e\<lparr>f_teacher_insert := Throws ''offline''\<rparr>"
  let ?sd = "bulkImportCourses mem_backend [] ?wd"
  have ud: "m_user ?wd = Some ?u" using usr by simp
  have gd: "world ?sd = ?wd" "errors ?sd = []" "successCount ?sd = 0"
    using gate[OF ud] by simp_all
  have "courses_select_by_code mem_backend (nc_code ?c) ?wd = (Resolved (PgData None), ?wd)"
    by (simp add: mem_defs)
  then have h4a: "courses_select_by_code mem_backend (nc_code ?c) (world ?sd) =
      (Resolved (PgData None), ?wd)"
    by (simp only: gd(1))
  have h4: "checkTeacherNameExists mem_backend (nc_teacher ?c) ?wd = (Resolved False, ?wd)"
    "teachers_insert mem_backend (teacherPayload (Some ?u) ?c) ?wd = (Rejected ''offline'', ?wd)"
    "courses_insert mem_backend ?p ?wd =
       (Resolved (PgData (newCourseRow ?wd ?p)), ?wd\<lparr>m_courses := [newCourseRow ?wd ?p]\<rparr>)"
    by (simp_all add: mem_backend_def mem_empty_def)
  from row_exceptions[OF adm[OF ud] refl sec, THEN conjunct2, THEN conjunct2, THEN conjunct2,
      THEN conjunct1, THEN mp,
      OF conjI[OF h4a conjI[OF noid conjI[OF name(1) conjI[OF h4(1) conjI[OF h4(2) h4(3)]]]]]]
  have r4: "report (bulkImportCourses mem_backend [?c] ?wd) =
     (1, [\<lparr>message = ''Course #1 (CSE101): Warning - Failed to create teacher: offline'',
           isWarning = True, isSuccess = False, details = None\<rparr>])"
    by (simp add: report_def lbl gd)

  let ?we = "?e\<lparr>m_teachers := [\<lparr>t_id = ''t1'', t_name = ''Dr. X'', t_phone = ''N/A'',
                            t_department = None\<rparr>],
          f_teacher_lookup := Throws ''offline''\<rparr>"
  let ?se = "bulkImportCourses mem_backend [] ?we"
  have ue: "m_user ?we = Some ?u" using usr by simp
  have ge: "world ?se = ?we" "errors ?se = []" "successCount ?se = 0"
    using gate[OF ue] by simp_all
  have "courses_select_by_code mem_backend (nc_code ?c) ?we = (Resolved (PgData None), ?we)"
    by (simp add: mem_defs)
  then have h5a: "courses_select_by_code mem_backend (nc_code ?c) (world ?se) =
      (Resolved (PgData None), ?we)"
    by (simp only: ge(1))
  have h5: "checkTeacherNameExists mem_backend (nc_teacher ?c) ?we = (Resolved True, ?we)"
    "teachers_select_id mem_backend (nc_teacher ?c) ?we = (Rejected ''offline'', ?we)"
    "courses_insert mem_backend ?p ?we =
       (Resolved (PgData (newCourseRow ?we ?p)), ?we\<lparr>m_courses := [newCourseRow ?we ?p]\<rparr>)"
    by (simp_all add: mem_backend_def mem_empty_def candidate_def)
  from row_exceptions[OF adm[OF ue] refl sec, THEN conjunct2, THEN conjunct2, THEN conjunct2,
      THEN conjunct2, THEN conjunct1, THEN mp,
      OF conjI[OF h5a conjI[OF noid conjI[OF name(1) conjI[OF h5(1) conjI[OF h5(2) h5(3)]]]]]]
  have r5: "report (bulkImportCourses mem_backend [?c] ?we) = (1, [])"
    by (simp add: report_def ge)

  have r6: "report (bulkImportCourses mem_backend [?ca, ?cb, ?cc] ?wb) =
     (2, [\<lparr>message = ''Course #2 (CSE102): offline'', isWarning = False, isSuccess = False,
           details = Some ''offline''\<rparr>])"
    by (simp add: bulk_defs report_def)
  have mem: "?cc \<in> set ([?ca] @ ?cb # [?cc]) \<and>
      \<not> (user_role ?u = Some ''section_admin'' \<and> \<not> truthy (nc_section ?cc))" by simp
  from row_exceptions[OF adm[OF ub] refl sec, where xs = "[?ca]" and course = ?cb
      and ys = "[?cc]" and c = ?cc,
      THEN conjunct2, THEN conjunct2, THEN conjunct2, THEN conjunct2, THEN conjunct2,
      THEN conjunct2, THEN conjunct2, THEN conjunct2, THEN mp, OF mem]
  obtain st where "(SelectCourseByCode (nc_code ?cc), st) \<in>
      set (trace (bulkImportCourses mem_backend ([?ca] @ ?cb # [?cc]) ?wb))" by (rule exE)
  then have "fst (SelectCourseByCode (nc_code ?cc), st) \<in>
      fst ` set (trace (bulkImportCourses mem_backend ([?ca] @ ?cb # [?cc]) ?wb))"
    by (rule imageI)
  then have r7: "SelectCourseByCode ''CSE103'' \<in>
      fst ` set (trace (bulkImportCourses mem_backend [?ca, ?cb, ?cc] ?wb))"
    by (simp add: candidate_def)
  from r1 r2 r3 r4 r5 r6 r7 show ?thesis by (intro conjI)
qed

text \<open>
  C3 fails as stated: an exception thrown during teacher resolution, by the teacher insert,
  yields a warning, and the row is inserted and counted.
\<close>

theorem row_exceptions_counterexample:
  "report (bulkImportCourses mem_backend [candidate ''CSE101'' ''Dr. X'' None]
      ((mem_empty (session (Some ''admin'') None))\<lparr>f_teacher_insert := Throws ''offline''\<rparr>)) =
     (1, [\<lparr>message = ''Course #1 (CSE101): Warning - Failed to create teacher: offline'',
           isWarning = True, isSuccess = False, details = None\<rparr>])"
  by (simp add: bulkImportCourses_def importGate_def role_denied_def row_defs mem_defs
      report_def rowLabel_def)

text \<open>
  C10. The entries \<^verbatim>\<open>bulkImportCourses\<close> has after the candidates \<open>xs\<close> are a prefix of its
  entries after \<open>xs @ ys\<close>; one candidate more adds at most two entries at the end; and under
  a session that passes the gate the state after \<open>xs @ [c]\<close> is the loop body for \<open>c\<close>, with
  index \<open>length xs\<close>, run on the state after \<open>xs\<close>: the candidates are taken in input order.
  A row whose teacher is created adds the warning flagged \<^verbatim>\<open>isSuccess\<close> and then what the
  reply \<open>ir\<close> of the course insert adds: nothing, with the row counted, when a row comes back;
  one non-warning entry, with the row not counted, when an error object comes back or the
  insert throws.
\<close>

theorem outcome_order:
  "prefix (errors (bulkImportCourses be xs w)) (errors (bulkImportCourses be (xs @ ys) w)) \<and>
   (\<exists>new. errors (bulkImportCourses be (xs @ [c]) w) =
           errors (bulkImportCourses be xs w) @ new \<and> length new \<le> 2) \<and>
   (sessionAdmits be w u \<longrightarrow>
      bulkImportCourses be (xs @ [c]) w =
        importRow be (Some u) (user_role u) (length xs) c (bulkImportCourses be xs w)) \<and>
   (sessionAdmits be w u \<and>
    \<not> (user_role u = Some ''section_admin'' \<and> \<not> truthy (nc_section course)) \<and>
    courses_select_by_code be (nc_code course) (world (bulkImportCourses be xs w)) =
      (Resolved (PgData None), w1) \<and>
    \<not> truthy (nc_teacherId course) \<and> nc_teacher course \<noteq> [] \<and>
    checkTeacherNameExists be (nc_teacher course) w1 = (Resolved False, w2) \<and>
    teachers_insert be (teacherPayload (Some u) course) w2 = (Resolved (PgData newTeacher), w3) \<and>
    courses_insert be
      (importPayload (Some u) course (formatClassTimes (nc_classTimes course))
         (Some (t_id newTeacher))) w3 = (ir, w4) \<longrightarrow>
      errors (bulkImportCourses be (xs @ [course]) w) =
        errors (bulkImportCourses be xs w) @
        \<lparr>message = ''Created teacher '' @ quoted (nc_teacher course) @ '' for course '' @
             quoted (nc_code course),
          isWarning = True, isSuccess = True, details = None\<rparr> #
        insertEntries (length xs) course ir \<and>
      successCount (bulkImportCourses be (xs @ [course]) w) =
        successCount (bulkImportCourses be xs w) + insertGain ir \<and>
      (\<forall>d. ir = Resolved (PgData d) \<longrightarrow>
         insertEntries (length xs) course ir = [] \<and> insertGain ir = 1) \<and>
      (\<forall>m. ir = Resolved (PgError m) \<or> ir = Rejected m \<longrightarrow>
         insertEntries (length xs) course ir =
           [\<lparr>message = rowLabel (length xs) course @ m, isWarning = False, isSuccess = False,
             details = Some m\<rparr>] \<and>
         insertGain ir = 0))"
proof -
  have a: "prefix (errors (bulkImportCourses be xs w)) (errors (bulkImportCourses be (xs @ ys) w))"
    using bulk_extends[of be xs w ys] by simp
  have c: "bulkImportCourses be (xs @ [c]) w =
        importRow be (Some u) (user_role u) (length xs) c (bulkImportCourses be xs w)"
    if "sessionAdmits be w u"
    by (rule bulk_snoc[OF that])
  have d: "errors (bulkImportCourses be (xs @ [course]) w) =
        errors (bulkImportCourses be xs w) @
        \<lparr>message = ''Created teacher '' @ quoted (nc_teacher course) @ '' for course '' @
             quoted (nc_code course),
          isWarning = True, isSuccess = True, details = None\<rparr> #
        insertEntries (length xs) course ir \<and>
      successCount (bulkImportCourses be (xs @ [course]) w) =
        successCount (bulkImportCourses be xs w) + insertGain ir"
    if adm: "sessionAdmits be w u"
      and sec: "\<not> (user_role u = Some ''section_admin'' \<and> \<not> truthy (nc_section course))"
      and dup: "courses_select_by_code be (nc_code course) (world (bulkImportCourses be xs w)) =
        (Resolved (PgData None), w1)"
      and noid: "\<not> truthy (nc_teacherId course)" and name: "nc_teacher course \<noteq> []"
      and ex: "checkTeacherNameExists be (nc_teacher course) w1 = (Resolved False, w2)"
      and mk: "teachers_insert be (teacherPayload (Some u) course) w2 =
        (Resolved (PgData newTeacher), w3)"
      and ins: "courses_insert be
        (importPayload (Some u) course (formatClassTimes (nc_classTimes course))
           (Some (t_id newTeacher))) w3 = (ir, w4)"
  proof -
    let ?s = "bulkImportCourses be xs w"
    let ?s1 = "?s\<lparr>world := w1,
                  trace := trace ?s @ [(SelectCourseByCode (nc_code course), Returned)]\<rparr>"
    have res: "resolveTeacher be (Some u) (length xs) course ?s1 =
      (Resolved (Some (t_id newTeacher)),
       ?s1\<lparr>world := w3,
         trace := trace ?s1 @
           [(CheckTeacherNameExists (nc_teacher course), Returned),
            (InsertTeacher (teacherPayload (Some u) course), Returned)],
         errors := errors ?s1 @
           [\<lparr>message = ''Created teacher '' @ quoted (nc_teacher course) @ '' for course '' @
                quoted (nc_code course),
             isWarning = True, isSuccess = True, details = None\<rparr>]\<rparr>)"
      by (rule resolve_created[OF noid name _ mk]) (simp add: ex)
    have "importRow be (Some u) (user_role u) (length xs) course ?s =
      ?s\<lparr>world := w4,
        trace := trace ?s @
          [(SelectCourseByCode (nc_code course), Returned),
           (CheckTeacherNameExists (nc_teacher course), Returned),
           (InsertTeacher (teacherPayload (Some u) course), Returned),
           (InsertCourse
              (importPayload (Some u) course (formatClassTimes (nc_classTimes course))
                 (Some (t_id newTeacher))), pg_status ir)],
        errors := errors ?s @
          \<lparr>message = ''Created teacher '' @ quoted (nc_teacher course) @ '' for course '' @
               quoted (nc_code course),
            isWarning = True, isSuccess = True, details = None\<rparr> #
          insertEntries (length xs) course ir,
        successCount := successCount ?s + insertGain ir\<rparr>"
      by (subst row_insert[OF _ sec dup res, where ir = ir and ?w4.0 = w4]) (simp_all add: ins)
    then show ?thesis
      by (simp add: bulk_snoc[OF adm])
  qed
  have e: "(\<forall>d. ir = Resolved (PgData d) \<longrightarrow>
         insertEntries (length xs) course ir = [] \<and> insertGain ir = 1) \<and>
      (\<forall>m. ir = Resolved (PgError m) \<or> ir = Rejected m \<longrightarrow>
         insertEntries (length xs) course ir =
           [\<lparr>message = rowLabel (length xs) course @ m, isWarning = False, isSuccess = False,
             details = Some m\<rparr>] \<and>
         insertGain ir = 0)"
    by auto
  show ?thesis
    apply (intro conjI impI)
    subgoal by (rule a)
    subgoal by (rule bulk_row_entries)
    subgoal by (rule c)
    subgoal by (elim conjE) (rule d[THEN conjunct1]; assumption)
    subgoal by (elim conjE) (rule d[THEN conjunct2]; assumption)
    subgoal by (rule e[THEN conjunct1])
    subgoal by (rule e[THEN conjunct2])
    done
qed

theorem outcome_order_witness:
  "report (bulkImportCourses mem_backend [candidate ''CSE101'' ''Dr. X'' None]
      (mem_empty (session (Some ''admin'') None))) =
     (1, [\<lparr>message = ''Created teacher '' @ quoted ''Dr. X'' @ '' for course '' @ quoted ''CSE101'',
           isWarning = True, isSuccess = True, details = None\<rparr>]) \<and>
   report (bulkImportCourses mem_backend [candidate ''CSE101'' ''Dr. X'' None]
      ((mem_empty (session (Some ''admin'') None))\<lparr>f_course_insert := Fails ''constraint''\<rparr>)) =
     (0, [\<lparr>message = ''Created teacher '' @ quoted ''Dr. X'' @ '' for course '' @ quoted ''CSE101'',
           isWarning = True, isSuccess = True, details = None\<rparr>,
          \<lparr>message = ''Course #1 (CSE101): constraint'', isWarning = False, isSuccess = False,
           details = Some ''constraint''\<rparr>]) \<and>
   report (bulkImportCourses mem_backend [candidate ''CSE101'' ''Dr. X'' None]
      ((mem_empty (session (Some ''admin'') None))\<lparr>f_course_insert := Throws ''offline''\<rparr>)) =
     (0, [\<lparr>message = ''Created teacher '' @ quoted ''Dr. X'' @ '' for course '' @ quoted ''CSE101'',
           isWarning = True, isSuccess = True, details = None\<rparr>,
          \<lparr>message = ''Course #1 (CSE101): offline'', isWarning = False, isSuccess = False,
           details = Some ''offline''\<rparr>]) \<and>
   bulkImportCourses mem_backend [candidate ''CSE101'' ''Dr. X'' None]
      (mem_empty (session (Some ''admin'') None)) =
     importRow mem_backend (session (Some ''admin'') None) (Some ''admin'') 0
       (candidate ''CSE101'' ''Dr. X'' None)
       (bulkImportCourses mem_backend [] (mem_empty (session (Some ''admin'') None)))"
proof -
  let ?u = "\<lparr>user_id = ''u1'', user_role = Some ''admin'', user_sectionId = None\<rparr>"
  let ?c = "candidate ''CSE101'' ''Dr. X'' None"
  let ?e = "mem_empty (session (Some ''admin'') None)"
  have adm: "sessionAdmits mem_backend w ?u" if "m_user w = Some ?u" for w
    using that by (simp add: sessionAdmits_def mem_backend_def role_denied_def)
  have usr: "m_user ?e = Some ?u" by (simp add: mem_empty_def session_def)
  have sec: "\<not> (user_role ?u = Some ''section_admin'' \<and> \<not> truthy (nc_section ?c))" by simp
  have noid: "\<not> truthy (nc_teacherId ?c)" and name: "nc_teacher ?c \<noteq> []"
    by (simp_all add: candidate_def)
  have lbl: "rowLabel 0 ?c = ''Course #1 (CSE101): ''"
    by (simp add: rowLabel_def candidate_def show_nat.simps digit_char_def)
  have fields: "nc_teacher ?c = ''Dr. X''" "nc_code ?c = ''CSE101''"
    by (simp_all add: candidate_def)
  have gate: "world (bulkImportCourses mem_backend [] w) = w \<and>
      errors (bulkImportCourses mem_backend [] w) = [] \<and>
      successCount (bulkImportCourses mem_backend [] w) = 0"
    if "m_user w = Some ?u" for w
    using that by (simp add: bulkImportCourses_def importGate_def role_denied_def perform_def
        mem_backend_def role_of_def)
  have run: "report (bulkImportCourses mem_backend [?c] w) =
      (insertGain ir, 
       \<lparr>message = ''Created teacher '' @ quoted ''Dr. X'' @ '' for course '' @ quoted ''CSE101'',
         isWarning = True, isSuccess = True, details = None\<rparr> # insertEntries 0 ?c ir)"
    if w: "m_user w = Some ?u" "f_course_lookup w = Healthy" "f_teacher_exists w = Healthy"
          "f_teacher_insert w = Healthy" "m_courses w = []" "m_teachers w = []"
      and ins: "courses_insert mem_backend
          (importPayload (Some ?u) ?c (formatClassTimes (nc_classTimes ?c))
             (Some (t_id (newTeacherRow w (teacherPayload (Some ?u) ?c)))))
          (w\<lparr>m_teachers := [newTeacherRow w (teacherPayload (Some ?u) ?c)]\<rparr>) = (ir, w4)"
    for w ir w4
  proof -
    let ?s = "bulkImportCourses mem_backend [] w"
    let ?t = "newTeacherRow w (teacherPayload (Some ?u) ?c)"
    have g: "world ?s = w" "errors ?s = []" "successCount ?s = 0"
      using gate[OF w(1)] by simp_all
    have "courses_select_by_code mem_backend (nc_code ?c) w = (Resolved (PgData None), w)"
      using w by (simp add: mem_backend_def)
    then have dup: "courses_select_by_code mem_backend (nc_code ?c) (world ?s) =
        (Resolved (PgData None), w)"
      by (simp only: g(1))
    have ex: "checkTeacherNameExists mem_backend (nc_teacher ?c) w = (Resolved False, w)"
      using w by (simp add: mem_backend_def)
    have mk: "teachers_insert mem_backend (teacherPayload (Some ?u) ?c) w =
        (Resolved (PgData ?t), w\<lparr>m_teachers := [?t]\<rparr>)"
      using w by (simp add: mem_backend_def)
    from outcome_order[where be = mem_backend and w = w and u = ?u and xs = "[]"
        and course = ?c and ?w1.0 = w and ?w2.0 = w and newTeacher = ?t
        and ?w3.0 = "w\<lparr>m_teachers := [?t]\<rparr>" and ir = ir and ?w4.0 = w4,
        THEN conjunct2, THEN conjunct2, THEN conjunct2, THEN mp,
        OF conjI[OF adm[OF w(1)] conjI[OF sec conjI[OF dup conjI[OF noid conjI[OF name
          conjI[OF ex conjI[OF mk ins]]]]]]]]
    have "errors (bulkImportCourses mem_backend ([] @ [?c]) w) =
        errors ?s @
        \<lparr>message = ''Created teacher '' @ quoted (nc_teacher ?c) @ '' for course '' @
             quoted (nc_code ?c),
          isWarning = True, isSuccess = True, details = None\<rparr> #
        insertEntries (length ([] :: NewCourse list)) ?c ir"
      and "successCount (bulkImportCourses mem_backend ([] @ [?c]) w) =
        successCount ?s + insertGain ir"
      by blast+
    then show ?thesis by (simp add: report_def g fields)
  qed
  have r1: "report (bulkImportCourses mem_backend [?c] ?e) =
     (1, [\<lparr>message = ''Created teacher '' @ quoted ''Dr. X'' @ '' for course '' @ quoted ''CSE101'',
           isWarning = True, isSuccess = True, details = None\<rparr>])"
    using run[where w = ?e and ir = "Resolved (PgData d)" for d]
    by (simp add: mem_backend_def mem_empty_def session_def)
  have r2: "report (bulkImportCourses mem_backend [?c] (?e\<lparr>f_course_insert := Fails ''constraint''\<rparr>)) =
     (0, [\<lparr>message = ''Created teacher '' @ quoted ''Dr. X'' @ '' for course '' @ quoted ''CSE101'',
           isWarning = True, isSuccess = True, details = None\<rparr>,
          \<lparr>message = ''Course #1 (CSE101): constraint'', isWarning = False, isSuccess = False,
           details = Some ''constraint''\<rparr>])"
    using run[where w = "?e\<lparr>f_course_insert := Fails ''constraint''\<rparr>"
        and ir = "Resolved (PgError ''constraint'')"]
    by (simp add: mem_backend_def mem_empty_def session_def lbl)
  have r3: "report (bulkImportCourses mem_backend [?c] (?e\<lparr>f_course_insert := Throws ''offline''\<rparr>)) =
     (0, [\<lparr>message = ''Created teacher '' @ quoted ''Dr. X'' @ '' for course '' @ quoted ''CSE101'',
           isWarning = True, isSuccess = True, details = None\<rparr>,
          \<lparr>message = ''Course #1 (CSE101): offline'', isWarning = False, isSuccess = False,
           details = Some ''offline''\<rparr>])"
    using run[where w = "?e\<lparr>f_course_insert := Throws ''offline''\<rparr>"
        and ir = "Rejected ''offline''"]
    by (simp add: mem_backend_def mem_empty_def session_def lbl)
  from outcome_order[where be = mem_backend and w = ?e and u = ?u and xs = "[]" and c = ?c,
      THEN conjunct2, THEN conjunct2, THEN conjunct1, THEN mp, OF adm[OF usr]]
  have r4: "bulkImportCourses mem_backend [?c] ?e =
     importRow mem_backend (session (Some ''admin'') None) (Some ''admin'') 0 ?c
       (bulkImportCourses mem_backend [] ?e)"
    by (simp add: session_def)
  from r1 r2 r3 r4 show ?thesis by (intro conjI)
qed

text \<open>
  C7 (as amended). Course creation is permitted exactly for the roles \<^verbatim>\<open>admin\<close> and
  \<^verbatim>\<open>section_admin\<close>. \<^verbatim>\<open>createCourse\<close> rejects any other role and rejects a
  \<^verbatim>\<open>section_admin\<close> whose course has no section, in both cases before any insert; for an
  \<^verbatim>\<open>admin\<close>, and for a \<^verbatim>\<open>section_admin\<close> with a section, it issues the insert.
  \<^verbatim>\<open>bulkImportCourses\<close> with a session whose role is any other ends with the one entry of
  its outer \<^verbatim>\<open>catch\<close> and no request for a candidate; with a session that passes the gate
  and has the role \<^verbatim>\<open>section_admin\<close>, a candidate without a section adds one warning to the
  state after the candidates before it, and no request; for an \<^verbatim>\<open>admin\<close>, or when the
  candidate has a section, the row goes on to the lookup by code. \<^verbatim>\<open>updateCourse\<close> and
  \<^verbatim>\<open>deleteCourse\<close> issue their request to the store without asking for the session.
\<close>

theorem creation_gate:
  assumes g: "auth_getUser be (world s) = (Resolved user, w1)"
  shows
    "(\<not> role_denied r \<longleftrightarrow> r = Some ''admin'' \<or> r = Some ''section_admin'') \<and>
     (role_denied (role_of user) \<longrightarrow>
        createCourse be course s =
          (Rejected ''Permission denied: Only admins and section admins can create courses'',
           s\<lparr>world := w1, trace := trace s @ [(GetUser, Returned)]\<rparr>)) \<and>
     (role_of user = Some ''section_admin'' \<and> \<not> truthy (nc_section course) \<longrightarrow>
        createCourse be course s =
          (Rejected ''Section admin must specify a section for the course'',
           s\<lparr>world := w1, trace := trace s @ [(GetUser, Returned)]\<rparr>)) \<and>
     (role_of user = Some ''admin'' \<or>
      role_of user = Some ''section_admin'' \<and> truthy (nc_section course) \<longrightarrow>
        (\<exists>st. trace (snd (createCourse be course s)) =
           trace s @
           [(GetUser, Returned),
            (InsertCourse (createPayload course (formatClassTimes (nc_classTimes course))), st)])) \<and>
     (fst (auth_getUser be w) = Resolved visitor \<and> role_denied (role_of visitor) \<longrightarrow>
        successCount (bulkImportCourses be courses w) = 0 \<and>
        (\<exists>m. errors (bulkImportCourses be courses w) =
           [\<lparr>message = ''Bulk import failed: '' @ m, isWarning = False, isSuccess = False,
             details = Some m\<rparr>]) \<and>
        map fst (trace (bulkImportCourses be courses w)) =
          GetUser # (case visitor of
                       None \<Rightarrow> []
                     | Some v \<Rightarrow> if user_id v \<noteq> [] then [SelectUserRole (user_id v)] else [])) \<and>
     (sessionAdmits be w u \<and> user_role u = Some ''section_admin'' \<and>
      \<not> truthy (nc_section course) \<longrightarrow>
        bulkImportCourses be (xs @ [course]) w =
          (bulkImportCourses be xs w)
            \<lparr>errors := errors (bulkImportCourses be xs w) @
               [\<lparr>message = rowLabel (length xs) course @
                    ''Section admin must specify a section for the course'',
                 isWarning = True, isSuccess = False, details = None\<rparr>]\<rparr>) \<and>
     (sessionAdmits be w u \<and> (user_role u = Some ''admin'' \<or> truthy (nc_section course)) \<longrightarrow>
        (\<exists>st ext. trace (bulkImportCourses be (xs @ [course]) w) =
           trace (bulkImportCourses be xs w) @ (SelectCourseByCode (nc_code course), st) # ext)) \<and>
     (\<exists>st. trace (snd (updateCourse be ident updates s)) =
        trace s @ [(UpdateCourse ident (updatePatch updates), st)]) \<and>
     (\<exists>st. trace (snd (deleteCourse be ident s)) = trace s @ [(DeleteCourse ident, st)])"
proof -
  have a: "role_denied (role_of user) \<longrightarrow>
        createCourse be course s =
          (Rejected ''Permission denied: Only admins and section admins can create courses'',
           s\<lparr>world := w1, trace := trace s @ [(GetUser, Returned)]\<rparr>)"
    using g by (simp add: createCourse_def perform_def)
  have b: "role_of user = Some ''section_admin'' \<and> \<not> truthy (nc_section course) \<longrightarrow>
        createCourse be course s =
          (Rejected ''Section admin must specify a section for the course'',
           s\<lparr>world := w1, trace := trace s @ [(GetUser, Returned)]\<rparr>)"
    using g by (simp add: createCourse_def perform_def role_denied_iff)
  have c: "role_of user = Some ''admin'' \<or>
      role_of user = Some ''section_admin'' \<and> truthy (nc_section course) \<longrightarrow>
        (\<exists>st. trace (snd (createCourse be course s)) =
           trace s @
           [(GetUser, Returned),
            (InsertCourse (createPayload course (formatClassTimes (nc_classTimes course))), st)])"
    using g
    by (auto simp: createCourse_def perform_def role_denied_iff Let_def
        split: prod.splits awaited.splits pg.splits)
  have d: "fst (auth_getUser be w) = Resolved visitor \<and> role_denied (role_of visitor) \<longrightarrow>
        successCount (bulkImportCourses be courses w) = 0 \<and>
        (\<exists>m. errors (bulkImportCourses be courses w) =
           [\<lparr>message = ''Bulk import failed: '' @ m, isWarning = False, isSuccess = False,
             details = Some m\<rparr>]) \<and>
        map fst (trace (bulkImportCourses be courses w)) =
          GetUser # (case visitor of
                       None \<Rightarrow> []
                     | Some v \<Rightarrow> if user_id v \<noteq> [] then [SelectUserRole (user_id v)] else [])"
    using bulk_denied[of be w visitor courses] by blast
  have e: "sessionAdmits be w u \<and> user_role u = Some ''section_admin'' \<and>
      \<not> truthy (nc_section course) \<longrightarrow>
        bulkImportCourses be (xs @ [course]) w =
          (bulkImportCourses be xs w)
            \<lparr>errors := errors (bulkImportCourses be xs w) @
               [\<lparr>message = rowLabel (length xs) course @
                    ''Section admin must specify a section for the course'',
                 isWarning = True, isSuccess = False, details = None\<rparr>]\<rparr>"
  proof (intro impI, elim conjE)
    assume adm: "sessionAdmits be w u" and role: "user_role u = Some ''section_admin''"
      and nosec: "\<not> truthy (nc_section course)"
    show "bulkImportCourses be (xs @ [course]) w =
          (bulkImportCourses be xs w)
            \<lparr>errors := errors (bulkImportCourses be xs w) @
               [\<lparr>message = rowLabel (length xs) course @
                    ''Section admin must specify a section for the course'',
                 isWarning = True, isSuccess = False, details = None\<rparr>]\<rparr>"
      unfolding bulk_snoc[OF adm] by (rule row_section_skip[OF role nosec])
  qed
  have f: "sessionAdmits be w u \<and> (user_role u = Some ''admin'' \<or> truthy (nc_section course)) \<longrightarrow>
        (\<exists>st ext. trace (bulkImportCourses be (xs @ [course]) w) =
           trace (bulkImportCourses be xs w) @ (SelectCourseByCode (nc_code course), st) # ext)"
  proof
    assume h: "sessionAdmits be w u \<and> (user_role u = Some ''admin'' \<or> truthy (nc_section course))"
    then have "\<not> (user_role u = Some ''section_admin'' \<and> \<not> truthy (nc_section course))"
      by auto
    from h have adm: "sessionAdmits be w u" by simp
    show "\<exists>st ext. trace (bulkImportCourses be (xs @ [course]) w) =
           trace (bulkImportCourses be xs w) @ (SelectCourseByCode (nc_code course), st) # ext"
      unfolding bulk_snoc[OF adm] by (rule importRow_checks_code) fact
  qed
  have k: "\<exists>st. trace (snd (updateCourse be ident updates s)) =
        trace s @ [(UpdateCourse ident (updatePatch updates), st)]"
    by (auto simp: updateCourse_def perform_def split: prod.splits awaited.splits pg.splits)
  have h: "\<exists>st. trace (snd (deleteCourse be ident s)) = trace s @ [(DeleteCourse ident, st)]"
    by (auto simp: deleteCourse_def perform_def split: prod.splits awaited.splits pg.splits)
  show ?thesis
    apply (intro conjI)
    subgoal by (rule role_denied_iff[of r, THEN arg_cong[of _ _ Not], simplified]) 
    subgoal by (rule a)
    subgoal by (rule b)
    subgoal by (rule c)
    subgoal by (rule d)
    subgoal by (rule e)
    subgoal by (rule f)
    subgoal by (rule k)
    subgoal by (rule h)
    done
qed

theorem creation_gate_witness:
  "fst (createCourse mem_backend (candidate ''CSE101'' ''Dr. X'' None)
         (io0 (mem_empty (session (Some ''user'') None)))) =
     Rejected ''Permission denied: Only admins and section admins can create courses'' \<and>
   fst (createCourse mem_backend (candidate ''CSE101'' ''Dr. X'' None)
         (io0 (mem_empty (session (Some ''section_admin'') (Some ''S1''))))) =
     Rejected ''Section admin must specify a section for the course'' \<and>
   map fst (trace (snd (createCourse mem_backend (candidate ''CSE101'' ''Dr. X'' None)
         (io0 (mem_empty (session (Some ''admin'') None)))))) =
     [GetUser,
      InsertCourse (createPayload (candidate ''CSE101'' ''Dr. X'' None) ''Mon at 10:00 in R1'')] \<and>
   map fst (trace (snd (createCourse mem_backend (candidate ''CSE101'' ''Dr. X'' (Some ''B''))
         (io0 (mem_empty (session (Some ''section_admin'') (Some ''S1'')))))))  =
     [GetUser,
      InsertCourse (createPayload (candidate ''CSE101'' ''Dr. X'' (Some ''B'')) ''Mon at 10:00 in R1'')] \<and>
   report (bulkImportCourses mem_backend [candidate ''CSE101'' ''Dr. X'' None]
         (mem_empty (session (Some ''section_admin'') (Some ''S1'')))) =
     (0, [\<lparr>message = ''Course #1 (CSE101): Section admin must specify a section for the course'',
           isWarning = True, isSuccess = False, details = None\<rparr>]) \<and>
   map fst (trace (bulkImportCourses mem_backend [candidate ''CSE101'' ''Dr. X'' None]
         (mem_empty (session (Some ''section_admin'') (Some ''S1''))))) =
     [GetUser, SelectUserRole ''u1''] \<and>
   SelectCourseByCode ''CSE101'' \<in> fst ` set (trace (bulkImportCourses mem_backend
         [candidate ''CSE101'' ''Dr. X'' None] (mem_empty (session (Some ''admin'') None)))) \<and>
   report (bulkImportCourses mem_backend [candidate ''CSE101'' ''Dr. X'' None]
         (mem_empty (session (Some ''user'') None))) =
     (0, [\<lparr>message = ''Bulk import failed: Permission denied: Only admins and section admins can import courses'',
           isWarning = False, isSuccess = False,
           details = Some ''Permission denied: Only admins and section admins can import courses''\<rparr>])"
proof -
  let ?c = "candidate ''CSE101'' ''Dr. X'' None"
  let ?cs = "candidate ''CSE101'' ''Dr. X'' (Some ''B'')"
  let ?uu = "session (Some ''user'') None"
  let ?us = "session (Some ''section_admin'') (Some ''S1'')"
  let ?ua = "session (Some ''admin'') None"
  have g: "auth_getUser mem_backend (world (io0 (mem_empty u))) = (Resolved u, mem_empty u)" for u
    by (simp add: mem_backend_def mem_empty_def io0_def)
  have fmt: "formatClassTimes (nc_classTimes ?c) = ''Mon at 10:00 in R1''"
    "formatClassTimes (nc_classTimes ?cs) = ''Mon at 10:00 in R1''"
    by (simp_all add: candidate_def formatClassTimes_def renderClassTime_def)
  have lbl: "rowLabel 0 ?c = ''Course #1 (CSE101): ''"
    by (simp add: rowLabel_def candidate_def show_nat.simps digit_char_def)

  have d1: "role_denied (role_of ?uu)"
    by (simp add: role_denied_def role_of_def session_def)
  from creation_gate[OF g, where course = ?c, THEN conjunct2, THEN conjunct1, THEN mp, OF d1]
  have r1: "fst (createCourse mem_backend ?c (io0 (mem_empty ?uu))) =
     Rejected ''Permission denied: Only admins and section admins can create courses''"
    by simp

  have d2: "role_of ?us = Some ''section_admin'' \<and> \<not> truthy (nc_section ?c)"
    by (simp add: role_of_def session_def candidate_def)
  from creation_gate[OF g, where course = ?c, THEN conjunct2, THEN conjunct2, THEN conjunct1,
      THEN mp, OF d2]
  have r2: "fst (createCourse mem_backend ?c (io0 (mem_empty ?us))) =
     Rejected ''Section admin must specify a section for the course''"
    by simp

  have d3: "role_of ?ua = Some ''admin'' \<or>
      role_of ?ua = Some ''section_admin'' \<and> truthy (nc_section ?c)"
    by (simp add: role_of_def session_def)
  from creation_gate[OF g, where course = ?c, THEN conjunct2, THEN conjunct2, THEN conjunct2,
      THEN conjunct1, THEN mp, OF d3]
  have r3: "map fst (trace (snd (createCourse mem_backend ?c (io0 (mem_empty ?ua))))) =
     [GetUser, InsertCourse (createPayload ?c ''Mon at 10:00 in R1'')]"
    by (auto simp: fmt io0_def)

  have d4: "role_of ?us = Some ''admin'' \<or>
      role_of ?us = Some ''section_admin'' \<and> truthy (nc_section ?cs)"
    by (simp add: role_of_def session_def candidate_def)
  from creation_gate[OF g, where course = ?cs, THEN conjunct2, THEN conjunct2, THEN conjunct2,
      THEN conjunct1, THEN mp, OF d4]
  have r4: "map fst (trace (snd (createCourse mem_backend ?cs (io0 (mem_empty ?us))))) =
     [GetUser, InsertCourse (createPayload ?cs ''Mon at 10:00 in R1'')]"
    by (auto simp: fmt io0_def)

  let ?vs = "\<lparr>user_id = ''u1'', user_role = Some ''section_admin'', user_sectionId = Some ''S1''\<rparr>"
  let ?va = "\<lparr>user_id = ''u1'', user_role = Some ''admin'', user_sectionId = None\<rparr>"
  have gate: "bulkImportCourses mem_backend [] (mem_empty v) =
      \<lparr>world = mem_empty v, trace = [(GetUser, Returned), (SelectUserRole ''u1'', Returned)],
       errors = [], successCount = 0\<rparr>"
    if "v = session (Some ''section_admin'') (Some ''S1'')" for v
    using that by (simp add: bulkImportCourses_def importGate_def role_denied_def perform_def
        mem_backend_def mem_empty_def session_def role_of_def)
  have d5: "sessionAdmits mem_backend (mem_empty ?us) ?vs \<and>
      user_role ?vs = Some ''section_admin'' \<and> \<not> truthy (nc_section ?c)"
    by (simp add: sessionAdmits_def mem_backend_def mem_empty_def session_def role_denied_def
        candidate_def)
  from creation_gate[OF g, where course = ?c and xs = "[]", THEN conjunct2, THEN conjunct2,
      THEN conjunct2, THEN conjunct2, THEN conjunct2, THEN conjunct1, THEN mp, OF d5]
  have st: "bulkImportCourses mem_backend [?c] (mem_empty ?us) =
      (bulkImportCourses mem_backend [] (mem_empty ?us))
        \<lparr>errors := errors (bulkImportCourses mem_backend [] (mem_empty ?us)) @
           [\<lparr>message = rowLabel 0 ?c @ ''Section admin must specify a section for the course'',
             isWarning = True, isSuccess = False, details = None\<rparr>]\<rparr>"
    by simp
  have r5: "report (bulkImportCourses mem_backend [?c] (mem_empty ?us)) =
     (0, [\<lparr>message = ''Course #1 (CSE101): Section admin must specify a section for the course'',
           isWarning = True, isSuccess = False, details = None\<rparr>])"
    and r6: "map fst (trace (bulkImportCourses mem_backend [?c] (mem_empty ?us))) =
     [GetUser, SelectUserRole ''u1'']"
    by (simp_all add: st gate[OF refl] report_def lbl)

  have d7: "sessionAdmits mem_backend (mem_empty ?ua) ?va \<and>
      (user_role ?va = Some ''admin'' \<or> truthy (nc_section ?c))"
    by (simp add: sessionAdmits_def mem_backend_def mem_empty_def session_def role_denied_def)
  from creation_gate[OF g, where course = ?c and xs = "[]" and w = "mem_empty ?ua",
      THEN conjunct2, THEN conjunct2, THEN conjunct2, THEN conjunct2, THEN conjunct2,
      THEN conjunct2, THEN conjunct1, THEN mp, OF d7]
  obtain st ext where "trace (bulkImportCourses mem_backend ([] @ [?c]) (mem_empty ?ua)) =
      trace (bulkImportCourses mem_backend [] (mem_empty ?ua)) @
      (SelectCourseByCode (nc_code ?c), st) # ext" by blast
  then have "SelectCourseByCode (nc_code ?c) \<in>
      fst ` set (trace (bulkImportCourses mem_backend ([] @ [?c]) (mem_empty ?ua)))"
    by force
  then have r7: "SelectCourseByCode ''CSE101'' \<in>
      fst ` set (trace (bulkImportCourses mem_backend [?c] (mem_empty ?ua)))"
    by (simp add: candidate_def)

  have d8: "fst (auth_getUser mem_backend (mem_empty ?uu)) = Resolved ?uu \<and>
      role_denied (role_of ?uu)"
    by (simp add: mem_backend_def mem_empty_def role_denied_def role_of_def session_def)
  from creation_gate[OF g, where w = "mem_empty ?uu" and courses = "[?c]" and visitor = ?uu,
      THEN conjunct2, THEN conjunct2, THEN conjunct2, THEN conjunct2, THEN conjunct1,
      THEN mp, OF d8]
  have cnt: "successCount (bulkImportCourses mem_backend [?c] (mem_empty ?uu)) = 0" by simp
  have msg: "errors (bulkImportCourses mem_backend [?c] (mem_empty ?uu)) =
     [\<lparr>message = ''Bulk import failed: Permission denied: Only admins and section admins can import courses'',
           isWarning = False, isSuccess = False,
           details = Some ''Permission denied: Only admins and section admins can import courses''\<rparr>]"
    by (simp add: bulkImportCourses_def importGate_def perform_def bulkCatch_def push_def
        mem_backend_def mem_empty_def session_def role_of_def role_denied_def)
  from cnt msg have r8: "report (bulkImportCourses mem_backend [?c] (mem_empty ?uu)) =
     (0, [\<lparr>message = ''Bulk import failed: Permission denied: Only admins and section admins can import courses'',
           isWarning = False, isSuccess = False,
           details = Some ''Permission denied: Only admins and section admins can import courses''\<rparr>])"
    by (simp add: report_def)
  from r1 r2 r3 r4 r5 r6 r7 r8 show ?thesis by (intro conjI)
qed

text \<open>
  C7 fails as stated: with a session whose role is \<^verbatim>\<open>user\<close>, \<^verbatim>\<open>updateCourse\<close> renames a
  stored course and \<^verbatim>\<open>deleteCourse\<close> removes it; neither asks for the session.
\<close>

theorem creation_gate_counterexample:
  "role_denied (role_of (session (Some ''user'') None)) \<and>
   updateCourse mem_backend ''c1''
      \<lparr>up_name = Some ''Renamed'', up_code = None, up_teacher = None, up_classTimes = None,
       up_telegramGroup = None, up_blcLink = None, up_blcEnrollKey = None, up_credit = None,
       up_section = None\<rparr>
      (io0 ((mem_empty (session (Some ''user'') None))
          \<lparr>m_courses := [newCourseRow (mem_empty None)
               (createPayload (candidate ''CSE101'' ''Dr. X'' None) ''Mon at 10:00'')]\<rparr>)) =
     (Resolved
        \<lparr>c_id = ''c1'', c_name = ''Renamed'', c_code = ''CSE101'', c_teacher = ''Dr. X'',
         c_classTimes = [\<lparr>p_day = Some ''Mon'', p_time = Some ''10:00'', p_classroom = None\<rparr>],
         c_telegramGroup = None, c_blcLink = None, c_blcEnrollKey = None, c_credit = Some 3,
         c_section = None, c_createdAt = ''now'', c_createdBy = None\<rparr>,
      \<lparr>world = (mem_empty (session (Some ''user'') None))
          \<lparr>m_courses := [(newCourseRow (mem_empty None)
               (createPayload (candidate ''CSE101'' ''Dr. X'' None) ''Mon at 10:00''))
               \<lparr>db_name := ''Renamed''\<rparr>]\<rparr>,
       trace = [(UpdateCourse ''c1''
          \<lparr>cp_name = Some ''Renamed'', cp_code = None, cp_teacher = None, cp_class_time = None,
           cp_telegram_group = None, cp_blc_link = None, cp_blc_enroll_key = None,
           cp_credit = None, cp_section = None\<rparr>, Returned)]\<rparr>) \<and>
   deleteCourse mem_backend ''c1''
      (io0 ((mem_empty (session (Some ''user'') None))
          \<lparr>m_courses := [newCourseRow (mem_empty None)
               (createPayload (candidate ''CSE101'' ''Dr. X'' None) ''Mon at 10:00'')]\<rparr>)) =
     (Resolved (),
      \<lparr>world = mem_empty (session (Some ''user'') None),
       trace = [(DeleteCourse ''c1'', Returned)]\<rparr>)"
  by (simp add: updateCourse_def deleteCourse_def perform_def io0_def mem_defs role_denied_def
      updatePatch_def patchRow_def createPayload_def mapCourseFromDB_def
      parseClassTimes_def parseClassTime_def js_split_def)

end
